theory Spec2Isabelle
  imports Main "HOL-Library.Word" "HOL-Library.AList"
begin

section \<open>Common vocabulary\<close>

text \<open>
  Byte slices are lists of 8-bit words, Go strings are \<open>string\<close> (a list of bytes).
  A call of the source either returns, blocks on a channel operation, or panics
  (nil dereference, index out of range, send on or close of a closed channel).
\<close>

type_synonym bytes = "8 word list"

datatype 'a outcome = Returns 'a | Blocks | Panics

text \<open>
  Go errors. The sentinels are the package-level variables of the source
  (\<open>errors.New\<close> evaluated once); \<open>ErrNew\<close> is any other error, known by its text
  (also \<open>fmt.Errorf\<close> without \<open>%w\<close> and \<open>errors.Errorf\<close>); \<open>Wrap p e\<close> is
  \<open>fmt.Errorf(p + "%w", e)\<close>. A nil error is \<open>None\<close> of \<open>error option\<close>.
\<close>

datatype error =
    ErrOrdererNotDefined
  | ErrNotEnoughEndorsements
  | ErrMSPIDEmpty
  | ErrMSPPathEmpty
  | ErrSignerNotFound
  | ErrNew string
  | Wrap string error

fun Error :: "error \<Rightarrow> string" where
  "Error ErrOrdererNotDefined = ''orderer not defined''"
| "Error ErrNotEnoughEndorsements = ''not enough endorsements''"
| "Error ErrMSPIDEmpty = ''MSP ID is empty''"
| "Error ErrMSPPathEmpty = ''MSP path is empty''"
| "Error ErrSignerNotFound = ''signer not found''"
| "Error (ErrNew s) = s"
| "Error (Wrap p e) = p @ Error e"

text \<open>The verb \<open>%d\<close> of package fmt: decimal digits, a minus sign for negatives.\<close>

definition digit :: "nat \<Rightarrow> char" where
  "digit d = ''0123456789'' ! d"

function fmt_nat :: "nat \<Rightarrow> string" where
  "fmt_nat n = (if n < 10 then [digit n] else fmt_nat (n div 10) @ [digit (n mod 10)])"
  by pat_completeness auto
termination
  by (relation "measure (\<lambda>n. n)") auto

declare fmt_nat.simps [simp del]

definition fmt_d :: "int \<Rightarrow> string" where
  "fmt_d i = (if i < 0 then CHR ''-'' # fmt_nat (nat (- i)) else fmt_nat (nat i))"


section \<open>Argument errors of the invoke builder (client/chaincode, invoke builder file)\<close>

record TruncatableString =
  Value :: string
  TruncatedByteCount :: int

definition TruncatableString_String :: "TruncatableString \<Rightarrow> string" where
  "TruncatableString_String t =
     (if TruncatedByteCount t = 0 then Value t
      else Value t @ ''('' @ fmt_d (TruncatedByteCount t) @ '')'')"

text \<open>
  \<open>makeTruncatableString\<close> is only called with the constant size 50, so the size is a
  natural number here; \<open>str[0:size]\<close> and \<open>str[size:]\<close> are in range on the branch
  that evaluates them.
\<close>

definition makeTruncatableString :: "string \<Rightarrow> nat \<Rightarrow> TruncatableString" where
  "makeTruncatableString str sz =
     (if length str \<le> sz
      then \<lparr>Value = str, TruncatedByteCount = 0\<rparr>
      else \<lparr>Value = take sz str @ ''...'',
            TruncatedByteCount = int (length (drop sz str))\<rparr>)"

text \<open>
  \<open>errArgMap.container\<close> is a Go map: an association list with distinct keys, where a
  store to a present key replaces its value.
\<close>

record errArgMap =
  container :: "(TruncatableString \<times> error) list"

definition newErrArgMap :: errArgMap where
  "newErrArgMap = \<lparr>container = []\<rparr>"

text \<open>\<open>Sprintf_v\<close> is \<open>fmt.Sprintf("%#v", arg)\<close>, the Go-syntax rendering of the argument.\<close>

definition Add :: "('a \<Rightarrow> string) \<Rightarrow> errArgMap \<Rightarrow> 'a \<Rightarrow> error \<Rightarrow> errArgMap" where
  "Add Sprintf_v e arg err =
     e\<lparr>container := AList.update (makeTruncatableString (Sprintf_v arg) 50) err (container e)\<rparr>"

text \<open>
  One line of the aggregate: \<open>errors.Wrap(err, key.String()).Error() + "\n"\<close>, where
  the wrapped text is the message, a colon, a blank and the cause.
\<close>

definition errLine :: "TruncatableString \<times> error \<Rightarrow> string" where
  "errLine kv = TruncatableString_String (fst kv) @ '': '' @ Error (snd kv) @ [CHR 0x0A]"

text \<open>
  \<open>errArgMap.Err\<close> ranges over the map; Go leaves the order of a map range unspecified, so the
  order is the argument \<open>mapOrder\<close> (the entries as the runtime visits them).
\<close>

definition errArgMap_Err ::
  "((TruncatableString \<times> error) list \<Rightarrow> (TruncatableString \<times> error) list) \<Rightarrow> errArgMap \<Rightarrow> error option"
where
  "errArgMap_Err mapOrder e =
     (if length (container e) = 0 then None
      else Some (ErrNew (concat (map errLine (mapOrder (container e))))))"


section \<open>The invoke builder and its Do\<close>

type_synonym SigningIdentity = string

record peer_Response =
  Status :: int
  Message :: string
  Payload :: bytes

record ProposalResponse =
  Response :: "peer_Response option"
  Endorser :: string

record SignedProposal =
  ProposalBytes :: bytes
  Signature :: bytes

text \<open>A \<open>common.Envelope\<close>; the channel-header parsing below reads its payload.\<close>

record Envelope =
  EnvPayload :: bytes
  EnvSignature :: bytes

text \<open>
  The collaborators of \<open>Do\<close> are interfaces implemented in other packages; each
  is the function its one method computes in the run at hand:
  \<open>PeerPool\<close> is \<open>EndorseOnMSPs\<close>, \<open>Orderer\<close> is \<open>Broadcast\<close> (its error only, the
  response is dropped by \<open>Do\<close>), \<open>TxWaiter\<close> is \<open>Wait\<close> on channel and txID, a call
  that returns its error, or blocks, or panics.
\<close>

type_synonym PeerPool = "string list \<Rightarrow> SignedProposal \<Rightarrow> error + ProposalResponse list"
type_synonym Orderer = "Envelope \<Rightarrow> error option"
type_synonym TxWaiter = "string \<Rightarrow> string \<Rightarrow> error option outcome"

record DoOptions =
  Identity :: SigningIdentity
  Pool :: PeerPool
  EndorsingMspIDs :: "string list"
  TxWaiter :: "TxWaiter option"

type_synonym DoOption = "DoOptions \<Rightarrow> error + DoOptions"

record Core =
  identity :: SigningIdentity
  peerPool :: PeerPool
  orderer :: "Orderer option"
  endorsingMSPs :: "string list"
  channelName :: string
  name :: string

record invokeBuilder =
  ccCore :: Core
  fn :: string
  args :: "bytes list"
  transientArgs :: "(string \<times> bytes) list"
  doOptions :: "DoOption list"
  err :: errArgMap

record Endorsement =
  Channel :: string
  Chaincode :: string
  Args :: "bytes list"
  Signer :: SigningIdentity
  TransientMap :: "(string \<times> bytes) list"

text \<open>
  What \<open>Do\<close> calls in the runtime and in other packages: the range order of the error map, the
  default tx-waiter constructor, \<open>tx.FnArgs\<close>, \<open>Endorsement.SignedProposal\<close>, and the
  two steps of \<open>CreateEnvelope\<close> (\<open>proto.Unmarshal\<close> of the proposal bytes and
  \<open>protoutil.CreateSignedTx\<close>).
\<close>

record env =
  mapOrder :: "(TruncatableString \<times> error) list \<Rightarrow> (TruncatableString \<times> error) list"
  txwaiter_Self :: "DoOptions \<Rightarrow> error + TxWaiter"
  tx_FnArgs :: "string \<Rightarrow> bytes list \<Rightarrow> bytes list"
  Endorsement_SignedProposal :: "Endorsement \<Rightarrow> error + (SignedProposal \<times> string)"
  proto_Unmarshal_Proposal :: "bytes \<Rightarrow> error + bytes"
  protoutil_CreateSignedTx :: "bytes \<Rightarrow> SigningIdentity \<Rightarrow> ProposalResponse list \<Rightarrow> error + Envelope"

definition NewInvokeBuilder :: "Core \<Rightarrow> string \<Rightarrow> invokeBuilder" where
  "NewInvokeBuilder c f =
     \<lparr>ccCore = c, fn = f, args = [], transientArgs = [], doOptions = [], err = newErrArgMap\<rparr>"

definition ArgBytes :: "invokeBuilder \<Rightarrow> bytes list \<Rightarrow> invokeBuilder" where
  "ArgBytes b as = b\<lparr>args := as\<rparr>"

text \<open>
  The loop of \<open>ArgJSON\<close>: an argument that fails to marshal is recorded in the error
  map, the others are collected.
\<close>

fun ArgJSON_loop ::
  "('a \<Rightarrow> error + bytes) \<Rightarrow> ('a \<Rightarrow> string) \<Rightarrow> errArgMap \<Rightarrow> bytes list \<Rightarrow> 'a list \<Rightarrow> errArgMap \<times> bytes list"
where
  "ArgJSON_loop json_Marshal Sprintf_v e argBytes [] = (e, argBytes)"
| "ArgJSON_loop json_Marshal Sprintf_v e argBytes (arg # rest) =
     (case json_Marshal arg of
        Inl er \<Rightarrow> ArgJSON_loop json_Marshal Sprintf_v (Add Sprintf_v e arg er) argBytes rest
      | Inr data \<Rightarrow> ArgJSON_loop json_Marshal Sprintf_v e (argBytes @ [data]) rest)"

definition ArgJSON ::
  "('a \<Rightarrow> error + bytes) \<Rightarrow> ('a \<Rightarrow> string) \<Rightarrow> invokeBuilder \<Rightarrow> 'a list \<Rightarrow> invokeBuilder"
where
  "ArgJSON json_Marshal Sprintf_v b ins =
     (case ArgJSON_loop json_Marshal Sprintf_v (err b) [] ins of
        (e, argBytes) \<Rightarrow> ArgBytes (b\<lparr>err := e\<rparr>) argBytes)"

definition CreateEnvelope ::
  "env \<Rightarrow> SignedProposal \<Rightarrow> ProposalResponse list \<Rightarrow> SigningIdentity \<Rightarrow> error + Envelope"
where
  "CreateEnvelope E proposal peerResponses ident =
     (case proto_Unmarshal_Proposal E (ProposalBytes proposal) of
        Inl e \<Rightarrow> Inl (Wrap ''unmarshal proposal: '' e)
      | Inr prop \<Rightarrow> protoutil_CreateSignedTx E prop ident peerResponses)"

fun applyOptions :: "DoOption list \<Rightarrow> DoOptions \<Rightarrow> error + DoOptions" where
  "applyOptions [] d = Inr d"
| "applyOptions (applyOpt # rest) d =
     (case applyOpt d of Inl e \<Rightarrow> Inl e | Inr d' \<Rightarrow> applyOptions rest d')"

text \<open>
  The calls \<open>Do\<close> makes on its collaborators, in order; the pool, the orderer and the
  waiter are the ones that reach the network.
\<close>

datatype call =
    CallTxWaiterSelf
  | CallEndorseOnMSPs "string list"
  | CallBroadcast Envelope
  | CallWait string string

type_synonym DoResult = "peer_Response option \<times> string \<times> error option"

definition defaultDoOptions :: "Core \<Rightarrow> DoOptions" where
  "defaultDoOptions c =
     \<lparr>Identity = identity c, Pool = peerPool c, EndorsingMspIDs = endorsingMSPs c, TxWaiter = None\<rparr>"

text \<open>
  \<open>Do\<close> from the endorsement on: the fan-out, the count check, the envelope, the
  broadcast and the wait. A nil \<open>TxWaiter\<close> (an option can set it) panics at the wait.
\<close>

definition Do_submit ::
  "env \<Rightarrow> invokeBuilder \<Rightarrow> Orderer \<Rightarrow> DoOptions \<Rightarrow> SignedProposal \<Rightarrow> string \<Rightarrow> (DoResult \<times> call list) outcome"
where
  "Do_submit E b ord doOpts proposal txID =
     (case peerPool (ccCore b) (EndorsingMspIDs doOpts) proposal of
        Inl e \<Rightarrow>
          Returns ((None, txID, Some (Wrap ''send proposal: '' e)),
                   [CallTxWaiterSelf, CallEndorseOnMSPs (EndorsingMspIDs doOpts)])
      | Inr peerResponses \<Rightarrow>
          if length peerResponses = 0 \<or> length peerResponses \<noteq> length (EndorsingMspIDs doOpts)
          then Returns ((None, '''',
                  Some (Wrap (''endorsements received num='' @ fmt_d (int (length peerResponses))
                              @ '', required='' @ fmt_d (int (length (EndorsingMspIDs doOpts))) @ '': '')
                             ErrNotEnoughEndorsements)),
                 [CallTxWaiterSelf, CallEndorseOnMSPs (EndorsingMspIDs doOpts)])
          else
            (case CreateEnvelope E proposal peerResponses (Identity doOpts) of
               Inl e \<Rightarrow>
                 Returns ((None, txID, Some (Wrap ''create signed transaction: '' e)),
                          [CallTxWaiterSelf, CallEndorseOnMSPs (EndorsingMspIDs doOpts)])
             | Inr envelope \<Rightarrow>
                 (case ord envelope of
                    Some e \<Rightarrow>
                      Returns ((None, txID, Some (Wrap ''broadcast transaction: '' e)),
                               [CallTxWaiterSelf, CallEndorseOnMSPs (EndorsingMspIDs doOpts),
                                CallBroadcast envelope])
                  | None \<Rightarrow>
                      (case TxWaiter doOpts of
                         None \<Rightarrow> Panics
                       | Some w \<Rightarrow>
                           (case w (channelName (ccCore b)) txID of
                              Panics \<Rightarrow> Panics
                            | Blocks \<Rightarrow> Blocks
                            | Returns (Some e) \<Rightarrow>
                                Returns ((None, txID, Some e),
                                         [CallTxWaiterSelf, CallEndorseOnMSPs (EndorsingMspIDs doOpts),
                                          CallBroadcast envelope, CallWait (channelName (ccCore b)) txID])
                            | Returns None \<Rightarrow>
                                Returns ((Response (peerResponses ! 0), txID, None),
                                         [CallTxWaiterSelf, CallEndorseOnMSPs (EndorsingMspIDs doOpts),
                                          CallBroadcast envelope, CallWait (channelName (ccCore b)) txID]))))))"

definition Do :: "env \<Rightarrow> invokeBuilder \<Rightarrow> DoOption list \<Rightarrow> (DoResult \<times> call list) outcome" where
  "Do E b options =
     (case errArgMap_Err (mapOrder E) (err b) of
        Some e \<Rightarrow> Returns ((None, '''', Some e), [])
      | None \<Rightarrow>
          (case orderer (ccCore b) of
             None \<Rightarrow> Returns ((None, '''', Some ErrOrdererNotDefined), [])
           | Some ord \<Rightarrow>
               (case txwaiter_Self E (defaultDoOptions (ccCore b)) of
                  Inl e \<Rightarrow> Returns ((None, '''', None), [CallTxWaiterSelf])
                | Inr w \<Rightarrow>
                    (case applyOptions (doOptions b @ options)
                            ((defaultDoOptions (ccCore b))\<lparr>TxWaiter := Some w\<rparr>) of
                       Inl e \<Rightarrow>
                         Returns ((None, '''', Some (ErrNew (''apply options: '' @ Error e))),
                                  [CallTxWaiterSelf])
                     | Inr doOpts \<Rightarrow>
                         (case Endorsement_SignedProposal E
                                 \<lparr>Channel = channelName (ccCore b), Chaincode = name (ccCore b),
                                  Args = tx_FnArgs E (fn b) (args b), Signer = Identity doOpts,
                                  TransientMap = transientArgs b\<rparr> of
                            Inl e \<Rightarrow>
                              Returns ((None, '''', Some (Wrap ''create proposal: '' e)),
                                       [CallTxWaiterSelf])
                          | Inr (proposal, txID) \<Rightarrow> Do_submit E b ord doOpts proposal txID)))))"


section \<open>MSP configuration (package config)\<close>

type_synonym api_Identity = string

record MSP =
  ID :: string
  Path :: string

text \<open>
  The loaded \<open>identity.MSP\<close>, as far as \<open>MSP.Signer\<close> looks at it: its \<open>Signer()\<close>,
  nil when the directory gave no signing certificate with a matching key.
\<close>

record identity_MSP =
  identity_Signer :: "api_Identity option"

text \<open>\<open>MSPFromPath\<close> is \<open>identity.MSPFromPath\<close>, the loader of package identity.\<close>

definition MSP_MSP ::
  "(string \<Rightarrow> string \<Rightarrow> error + identity_MSP) \<Rightarrow> MSP \<Rightarrow> error + identity_MSP"
where
  "MSP_MSP MSPFromPath m =
     (if ID m = '''' then Inl ErrMSPIDEmpty
      else if Path m = '''' then Inl ErrMSPPathEmpty
      else MSPFromPath (ID m) (Path m))"

definition MSP_Signer ::
  "(string \<Rightarrow> string \<Rightarrow> error + identity_MSP) \<Rightarrow> MSP \<Rightarrow> error + api_Identity"
where
  "MSP_Signer MSPFromPath m =
     (case MSP_MSP MSPFromPath m of
        Inl e \<Rightarrow> Inl e
      | Inr mspConfig \<Rightarrow>
          (case identity_Signer mspConfig of
             None \<Rightarrow> Inl ErrSignerNotFound
           | Some signer \<Rightarrow> Inr signer))"


section \<open>TxID subscription (package subs)\<close>

text \<open>
  A buffered Go channel: the queued values, the capacity and whether it is closed.
  A send on a closed channel and a second close panic; a send on a full channel blocks;
  a receive is ready when a value is queued or the channel is closed, and a closed,
  drained channel yields \<open>ok = false\<close> (\<open>None\<close> here).
\<close>

record 'a chan =
  buf :: "'a list"
  cap :: nat
  closed :: bool

definition make_chan :: "nat \<Rightarrow> 'a chan" where
  "make_chan n = \<lparr>buf = [], cap = n, closed = False\<rparr>"

definition send :: "'a chan \<Rightarrow> 'a \<Rightarrow> 'a chan outcome" where
  "send c v =
     (if closed c then Panics
      else if length (buf c) < cap c then Returns (c\<lparr>buf := buf c @ [v]\<rparr>)
      else Blocks)"

definition close_chan :: "'a chan \<Rightarrow> 'a chan outcome" where
  "close_chan c = (if closed c then Panics else Returns (c\<lparr>closed := True\<rparr>))"

definition ready :: "'a chan \<Rightarrow> bool" where
  "ready c = (buf c \<noteq> [] \<or> closed c)"

definition recv :: "'a chan \<Rightarrow> 'a option \<times> 'a chan" where
  "recv c = (case buf c of v # vs \<Rightarrow> (Some v, c\<lparr>buf := vs\<rparr>) | [] \<Rightarrow> (None, c))"

record result =
  code :: int
  err :: "error option"

text \<open>
  The \<open>ErrorCloser\<close> handed to \<open>Serve\<close> is an interface implemented by the block
  stream; \<open>Result\<close> only receives from its \<open>Err()\<close> channel.
\<close>

record ErrorCloser =
  Err :: "error option chan"

record TxSubscription =
  txId :: string
  result :: "result chan"
  ErrorCloser :: "ErrorCloser option"

definition NewTxSubscription :: "string \<Rightarrow> TxSubscription" where
  "NewTxSubscription txID = \<lparr>txId = txID, result = make_chan 1, ErrorCloser = None\<rparr>"

text \<open>\<open>Serve\<close> also runs the callback \<open>readyForHandling\<close>, which does not touch the subscription.\<close>

definition Serve :: "TxSubscription \<Rightarrow> ErrorCloser \<Rightarrow> TxSubscription" where
  "Serve ts sub = ts\<lparr>ErrorCloser := Some sub\<rparr>"

text \<open>The receive from \<open>ts.result\<close>, written twice in \<open>Result\<close>.\<close>

definition recvResult :: "TxSubscription \<Rightarrow> (int \<times> error option) \<times> TxSubscription" where
  "recvResult ts =
     (case recv (result ts) of
        (None, c) \<Rightarrow> ((- 1, Some (ErrNew ''code is closed'')), ts\<lparr>result := c\<rparr>)
      | (Some r, c) \<Rightarrow> ((code r, err r), ts\<lparr>result := c\<rparr>))"

text \<open>
  \<open>Result\<close>. The method value \<open>ts.Err\<close> of a nil embedded interface panics. The select
  blocks while neither channel is ready; when both are, Go picks one of them, which is
  the argument \<open>pickResult\<close> here (true: the case of \<open>ts.result\<close>).
\<close>

definition Result :: "bool \<Rightarrow> TxSubscription \<Rightarrow> ((int \<times> error option) \<times> TxSubscription) outcome" where
  "Result pickResult ts =
     (case ErrorCloser ts of
        None \<Rightarrow> Panics
      | Some ec \<Rightarrow>
          if \<not> ready (result ts) \<and> \<not> ready (Err ec) then Blocks
          else if ready (result ts) \<and> (\<not> ready (Err ec) \<or> pickResult) then Returns (recvResult ts)
          else
            (case recv (Err ec) of
               (None, c) \<Rightarrow>
                 if ready (result ts) then Returns (recvResult ts)
                 else Returns ((- 1, Some (ErrNew ''err is closed'')), ts)
             | (Some e, c) \<Rightarrow> Returns ((- 1, e), ts\<lparr>ErrorCloser := Some (ec\<lparr>Err := c\<rparr>)\<rparr>)))"

text \<open>
  A block, read through the nil-safe getters: \<open>Data\<close> is \<open>block.GetData().GetData()\<close>,
  \<open>Metadata\<close> is \<open>block.GetMetadata().GetMetadata()\<close> (both empty for a nil part).
\<close>

record Block =
  Data :: "bytes list"
  Metadata :: "bytes list"

definition BlockMetadataIndex_TRANSACTIONS_FILTER :: nat where
  "BlockMetadataIndex_TRANSACTIONS_FILTER = 2"

definition TxValidationCode_VALID :: int where
  "TxValidationCode_VALID = 0"

text \<open>
  Modelled from the spec: the validation flag array of package util/txflags, whose code is
  missing. It is a byte per transaction, indexed by the position in the
  block's data array; \<open>Flag\<close> reads the code at an index (a Go slice index, so out of
  range it panics) and \<open>IsValid\<close> compares it with VALID.
\<close>

definition Flag :: "bytes \<Rightarrow> nat \<Rightarrow> int outcome" where
  "Flag txFilter i = (if i < length txFilter then Returns (uint (txFilter ! i)) else Panics)"

definition IsValid :: "bytes \<Rightarrow> nat \<Rightarrow> bool outcome" where
  "IsValid txFilter i =
     (case Flag txFilter i of
        Returns c \<Rightarrow> Returns (c = TxValidationCode_VALID)
      | Blocks \<Rightarrow> Blocks
      | Panics \<Rightarrow> Panics)"

record common_Header =
  ChannelHeader :: bytes
  SignatureHeader :: bytes

record common_Payload =
  Header :: "common_Header option"

record common_ChannelHeader =
  ChannelId :: string
  TxId :: string

text \<open>
  The parsers of package protoutil and the name table \<open>peer.TxValidationCode_name\<close> (a Go
  map, so a code without an entry reads as the empty string) belong to Fabric.
\<close>

record protoutil =
  GetEnvelopeFromBlock :: "bytes \<Rightarrow> error + Envelope"
  UnmarshalPayload :: "bytes \<Rightarrow> error + common_Payload"
  UnmarshalChannelHeader :: "bytes \<Rightarrow> error + common_ChannelHeader"
  TxValidationCode_name :: "int \<Rightarrow> string option"

definition codeName :: "protoutil \<Rightarrow> int \<Rightarrow> string" where
  "codeName P c = (case TxValidationCode_name P c of None \<Rightarrow> '''' | Some n \<Rightarrow> n)"

text \<open>\<open>ts.result <- r; return true\<close>, the way every resolving branch of \<open>Handler\<close> ends.\<close>

definition resolve :: "TxSubscription \<Rightarrow> result \<Rightarrow> (TxSubscription \<times> bool) outcome" where
  "resolve ts r =
     (case send (result ts) r of
        Returns c \<Rightarrow> Returns (ts\<lparr>result := c\<rparr>, True)
      | Blocks \<Rightarrow> Blocks
      | Panics \<Rightarrow> Panics)"

text \<open>The loop of \<open>Handler\<close> over the block's data, from index \<open>i\<close> on.\<close>

fun Handler_loop ::
  "protoutil \<Rightarrow> TxSubscription \<Rightarrow> bytes \<Rightarrow> nat \<Rightarrow> bytes list \<Rightarrow> (TxSubscription \<times> bool) outcome"
where
  "Handler_loop P ts txFilter i [] = Returns (ts, False)"
| "Handler_loop P ts txFilter i (r # rs) =
     (case GetEnvelopeFromBlock P r of
        Inl e \<Rightarrow> resolve ts \<lparr>code = 0, err = Some e\<rparr>
      | Inr env \<Rightarrow>
          (case UnmarshalPayload P (EnvPayload env) of
             Inl e \<Rightarrow> resolve ts \<lparr>code = 0, err = Some e\<rparr>
           | Inr p \<Rightarrow>
               (case Header p of
                  None \<Rightarrow> Panics
                | Some h \<Rightarrow>
                    (case UnmarshalChannelHeader P (ChannelHeader h) of
                       Inl e \<Rightarrow> resolve ts \<lparr>code = 0, err = Some e\<rparr>
                     | Inr chHeader \<Rightarrow>
                         if TxId chHeader = txId ts
                         then
                           (case IsValid txFilter i of
                              Panics \<Rightarrow> Panics
                            | Blocks \<Rightarrow> Blocks
                            | Returns valid \<Rightarrow>
                                (case Flag txFilter i of
                                   Panics \<Rightarrow> Panics
                                 | Blocks \<Rightarrow> Blocks
                                 | Returns flag \<Rightarrow>
                                     if valid then resolve ts \<lparr>code = flag, err = None\<rparr>
                                     else resolve ts
                                            \<lparr>code = flag,
                                             err = Some (ErrNew (''TxId validation code failed: '' @ codeName P flag))\<rparr>))
                         else Handler_loop P ts txFilter (i + 1) rs))))"

definition Handler :: "protoutil \<Rightarrow> TxSubscription \<Rightarrow> Block option \<Rightarrow> (TxSubscription \<times> bool) outcome" where
  "Handler P ts block =
     (case block of
        None \<Rightarrow>
          (case close_chan (result ts) of
             Returns c \<Rightarrow> Returns (ts\<lparr>result := c\<rparr>, False)
           | Blocks \<Rightarrow> Blocks
           | Panics \<Rightarrow> Panics)
      | Some b \<Rightarrow>
          if length (Metadata b) \<le> BlockMetadataIndex_TRANSACTIONS_FILTER then Panics
          else Handler_loop P ts (Metadata b ! BlockMetadataIndex_TRANSACTIONS_FILTER) 0 (Data b))"

text \<open>
  The three parsing steps of the loop body on one entry of the block's data, for stating
  what the loop does: the parse error of the first step that fails, a payload without a
  header (which the loop dereferences), or the channel header.
\<close>

datatype parsed = Malformed error | NoHeader | Parsed common_ChannelHeader

definition parseTx :: "protoutil \<Rightarrow> bytes \<Rightarrow> parsed" where
  "parseTx P r =
     (case GetEnvelopeFromBlock P r of
        Inl e \<Rightarrow> Malformed e
      | Inr env \<Rightarrow>
          (case UnmarshalPayload P (EnvPayload env) of
             Inl e \<Rightarrow> Malformed e
           | Inr p \<Rightarrow>
               (case Header p of
                  None \<Rightarrow> NoHeader
                | Some h \<Rightarrow>
                    (case UnmarshalChannelHeader P (ChannelHeader h) of
                       Inl e \<Rightarrow> Malformed e
                     | Inr chHeader \<Rightarrow> Parsed chHeader))))"

text \<open>An entry the loop steps over: it parses and carries another transaction id.\<close>

definition passes :: "protoutil \<Rightarrow> TxSubscription \<Rightarrow> bytes \<Rightarrow> bool" where
  "passes P ts r = (case parseTx P r of Parsed chHeader \<Rightarrow> TxId chHeader \<noteq> txId ts | _ \<Rightarrow> False)"

text \<open>
  A block that \<open>Handler\<close> steps over: it carries its TRANSACTIONS_FILTER metadata and
  every entry of its data parses and carries another transaction id. The nil block (the
  closed stream) is not stepped over.
\<close>

definition quiet :: "protoutil \<Rightarrow> TxSubscription \<Rightarrow> Block option \<Rightarrow> bool" where
  "quiet P ts block =
     (case block of
        None \<Rightarrow> False
      | Some b \<Rightarrow>
          BlockMetadataIndex_TRANSACTIONS_FILTER < length (Metadata b) \<and>
          list_all (passes P ts) (Data b))"

text \<open>
  Modelled from the spec: the block stream hub, whose code is missing. Per channel it
  holds one stream of blocks and hands each block, in ledger order, to the handler of a
  subscriber, until the handler reports the block as handled or the stream closes (the
  nil block). \<open>stream_blocks\<close> is what the stream of a channel delivers before the
  caller's deadline, \<open>stream_errors\<close> is the error side the hub gives a subscriber of
  that channel, and \<open>select_result\<close> is the choice of the select in \<open>Result\<close>.
\<close>

record hub =
  stream_blocks :: "string \<Rightarrow> Block option list"
  stream_errors :: "string \<Rightarrow> ErrorCloser"
  select_result :: bool

fun deliver :: "protoutil \<Rightarrow> TxSubscription \<Rightarrow> Block option list \<Rightarrow> TxSubscription outcome" where
  "deliver P ts [] = Returns ts"
| "deliver P ts (block # rest) =
     (case Handler P ts block of
        Returns (ts', handled) \<Rightarrow>
          if handled \<or> block = None then Returns ts' else deliver P ts' rest
      | Blocks \<Rightarrow> Blocks
      | Panics \<Rightarrow> Panics)"

definition context_DeadlineExceeded :: error where
  "context_DeadlineExceeded = ErrNew ''context deadline exceeded''"

text \<open>
  Modelled from the spec: \<open>Wait\<close> of the default tx-waiter (package txwaiter, whose code
  is missing). The spec has the waiter install a TxID subscription for the transaction
  on the channel, await it until the caller's deadline, and hand back the error of its
  outcome: the error \<open>Result\<close> returns, or the deadline error of the scope when the
  subscription is still unresolved after the last block delivered in time. A panic of
  the handler is a panic of the program.
\<close>

definition txwaiter_Wait :: "protoutil \<Rightarrow> hub \<Rightarrow> TxWaiter" where
  "txwaiter_Wait P H channel txID =
     (case deliver P (Serve (NewTxSubscription txID) (stream_errors H channel)) (stream_blocks H channel) of
        Returns ts \<Rightarrow>
          (case Result (select_result H) ts of
             Returns (r, ts') \<Rightarrow> Returns (snd r)
           | Blocks \<Rightarrow> Returns (Some context_DeadlineExceeded)
           | Panics \<Rightarrow> Panics)
      | Blocks \<Rightarrow> Returns (Some context_DeadlineExceeded)
      | Panics \<Rightarrow> Panics)"


section \<open>gRPC connection factory (client/grpc/grpc.go)\<close>

text \<open>
  The configuration types are declared in package api/config. A \<open>time.Duration\<close> is a
  64-bit count of nanoseconds; the retry maximum and the keep-alive seconds are 64-bit
  too. The three \<open>Timeout\<close> fields and the field \<open>Max\<close> carry a suffix here, since a
  field name is one constant of the theory.
\<close>

type_synonym Duration = "64 word"

definition Second :: Duration where
  "Second = 1000000000"

record TlsConfig =
  Enabled :: bool
  SkipVerify :: bool
  CACertPath :: string
  CertPath :: string
  KeyPath :: string

record GRPCRetryConfig =
  Max_retry :: "64 word"
  Timeout_retry :: Duration

record GRPCKeepAliveConfig =
  Time_keepalive :: "64 word"
  Timeout_keepalive :: "64 word"

record GRPCConfig =
  KeepAlive :: "GRPCKeepAliveConfig option"
  Retry :: "GRPCRetryConfig option"

record ConnectionConfig =
  Host :: string
  Tls :: TlsConfig
  GRPC :: GRPCConfig
  Timeout :: Duration

text \<open>
  The package-level variables. They are pointers, so an assignment through an alias of
  one of them changes the variable for every later call.
\<close>

record globals =
  DefaultGRPCRetryConfig :: GRPCRetryConfig
  DefaultGRPCKeepAliveConfig :: GRPCKeepAliveConfig

definition initial_globals :: globals where
  "initial_globals =
     \<lparr>DefaultGRPCRetryConfig = \<lparr>Max_retry = 10, Timeout_retry = 10 * Second\<rparr>,
      DefaultGRPCKeepAliveConfig = \<lparr>Time_keepalive = 60, Timeout_keepalive = 5\<rparr>\<rparr>"

definition maxRecvMsgSize :: nat where
  "maxRecvMsgSize = 100 * 1024 * 1024"

definition maxSendMsgSize :: nat where
  "maxSendMsgSize = 100 * 1024 * 1024"

type_synonym CertPool = "bytes list"

record tls_Certificate =
  Certificate :: "bytes list"

record tls_Config =
  InsecureSkipVerify :: bool
  RootCAs :: "CertPool option"
  Certificates :: "tls_Certificate list"

text \<open>
  A dial option, by what it was built from: the tracing stats handler, the transport
  credentials of a TLS configuration, plaintext, the keep-alive parameters (time,
  timeout, permit without stream), the retry interceptor (maximum, linear backoff), the
  call size limits (receive, send), blocking dial, the balancer name.
\<close>

datatype DialOption =
    WithStatsHandler
  | WithTransportCredentials tls_Config
  | WithInsecure
  | WithKeepaliveParams Duration Duration bool
  | WithUnaryInterceptor "64 word" Duration
  | WithDefaultCallOptions nat nat
  | WithBlock
  | WithBalancerName string

record Opts =
  TLSCertHash :: bytes
  Dial :: "DialOption list"

text \<open>
  The operating system and the libraries the factory calls: file reads, the certificate
  parsers, SHA-256, \<open>Duration.String\<close>, \<open>net.SplitHostPort\<close>, the scheme of the generated
  manual resolver, and \<open>grpc.DialContext\<close> (target, options, resolver addresses; its
  error).
\<close>

record sys =
  ReadFile :: "string \<Rightarrow> error + bytes"
  AppendCertsFromPEM :: "bytes \<Rightarrow> CertPool option"
  SystemCertPool :: "error + CertPool"
  LoadX509KeyPair :: "string \<Rightarrow> string \<Rightarrow> error + tls_Certificate"
  sha256_Sum256 :: "bytes \<Rightarrow> bytes"
  Duration_String :: "Duration \<Rightarrow> string"
  SplitHostPort :: "string \<Rightarrow> error + (string \<times> string)"
  resolver_Scheme :: string
  DialContext :: "string \<Rightarrow> DialOption list \<Rightarrow> string list \<Rightarrow> error option"

definition grpc_TLSCertHash :: "sys \<Rightarrow> bytes \<Rightarrow> bytes" where
  "grpc_TLSCertHash S cert = sha256_Sum256 S cert"

text \<open>The first part of \<open>OptionsFromConfig\<close>: the transport security option.\<close>

definition OptionsFromConfig_tls :: "sys \<Rightarrow> ConnectionConfig \<Rightarrow> Opts \<Rightarrow> error + Opts" where
  "OptionsFromConfig_tls S c opts =
     (if Enabled (Tls c) then
        (case (if CACertPath (Tls c) \<noteq> ''''
               then (case ReadFile S (CACertPath (Tls c)) of
                       Inl e \<Rightarrow> Inl (Wrap ''failed to read CA certificate: '' e)
                     | Inr caCert \<Rightarrow>
                         (case AppendCertsFromPEM S caCert of
                            None \<Rightarrow> Inl (ErrNew ''failed to append CA certificate to chain'')
                          | Some certPool \<Rightarrow> Inr certPool))
               else (case SystemCertPool S of
                       Inl e \<Rightarrow> Inl (Wrap ''get system cert pool: '' e)
                     | Inr pool \<Rightarrow> Inr pool)) of
           Inl e \<Rightarrow> Inl e
         | Inr rootCAs \<Rightarrow>
             (case (if CertPath (Tls c) \<noteq> '''' \<and> KeyPath (Tls c) \<noteq> ''''
                    then (case LoadX509KeyPair S (CertPath (Tls c)) (KeyPath (Tls c)) of
                            Inl e \<Rightarrow> Inl (Wrap ''TLS client certificate: '' e)
                          | Inr cert \<Rightarrow>
                              Inr ([cert],
                                   if length (Certificate cert) > 0
                                   then grpc_TLSCertHash S (Certificate cert ! 0)
                                   else TLSCertHash opts))
                    else Inr ([], TLSCertHash opts)) of
                Inl e \<Rightarrow> Inl e
              | Inr (certs, hash) \<Rightarrow>
                  Inr \<lparr>TLSCertHash = hash,
                       Dial = Dial opts @
                         [WithTransportCredentials
                            \<lparr>InsecureSkipVerify = SkipVerify (Tls c), RootCAs = Some rootCAs,
                             Certificates = certs\<rparr>]\<rparr>))
      else Inr (opts\<lparr>Dial := Dial opts @ [WithInsecure]\<rparr>))"

text \<open>
  The choice of the retry configuration. With no \<open>Retry\<close> block and a non-empty rendering
  of the timeout, \<open>retryConfig\<close> is the pointer \<open>DefaultGRPCRetryConfig\<close> and the
  assignment to \<open>retryConfig.Timeout\<close> writes the package-level variable.
\<close>

definition chooseRetryConfig :: "sys \<Rightarrow> globals \<Rightarrow> ConnectionConfig \<Rightarrow> globals \<times> GRPCRetryConfig" where
  "chooseRetryConfig S g c =
     (case Retry (GRPC c) of
        Some r \<Rightarrow> (g, r)
      | None \<Rightarrow>
          if Duration_String S (Timeout c) \<noteq> ''''
          then (g\<lparr>DefaultGRPCRetryConfig := (DefaultGRPCRetryConfig g)\<lparr>Timeout_retry := Timeout c\<rparr>\<rparr>,
                (DefaultGRPCRetryConfig g)\<lparr>Timeout_retry := Timeout c\<rparr>)
          else (g, DefaultGRPCRetryConfig g))"

text \<open>\<open>OptionsFromConfig\<close>: the package-level variables after the call, and its result.\<close>

definition OptionsFromConfig :: "sys \<Rightarrow> globals \<Rightarrow> ConnectionConfig \<Rightarrow> globals \<times> (error + Opts)" where
  "OptionsFromConfig S g c =
     (case OptionsFromConfig_tls S c \<lparr>TLSCertHash = [], Dial = [WithStatsHandler]\<rparr> of
        Inl e \<Rightarrow> (g, Inl e)
      | Inr opts \<Rightarrow>
          (let keepAlive = (case KeepAlive (GRPC c) of
                              None \<Rightarrow> DefaultGRPCKeepAliveConfig g
                            | Some k \<Rightarrow> k);
               opts1 = opts\<lparr>Dial := Dial opts @
                         [WithKeepaliveParams (Time_keepalive keepAlive * Second)
                            (Timeout_keepalive keepAlive * Second) True]\<rparr>
           in (case chooseRetryConfig S g c of
                 (g', retryConfig) \<Rightarrow>
                   (g', Inr (opts1\<lparr>Dial := Dial opts1 @
                               [WithUnaryInterceptor (Max_retry retryConfig) (Timeout_retry retryConfig),
                                WithDefaultCallOptions maxRecvMsgSize maxSendMsgSize,
                                WithBlock]\<rparr>)))))"

text \<open>
  The connection \<open>grpc.DialContext\<close> hands back, by what it was dialled with: the one
  target, the one list of dial options, and the addresses of the manual resolver.
\<close>

record ClientConn =
  target :: string
  dialOptions :: "DialOption list"
  addresses :: "string list"

definition roundrobin_Name :: string where
  "roundrobin_Name = ''round_robin''"

definition ConnectionFromConfigs ::
  "sys \<Rightarrow> globals \<Rightarrow> ConnectionConfig list \<Rightarrow> globals \<times> (error + ClientConn)"
where
  "ConnectionFromConfigs S g conf =
     (if length conf = 0 then (g, Inl (ErrNew ''no GRPC options provided''))
      else
        (case OptionsFromConfig S g (conf ! 0) of
           (g', Inl e) \<Rightarrow> (g', Inl (Wrap ''failed to get GRPC options: '' e))
         | (g', Inr opts) \<Rightarrow>
             (case SplitHostPort S (Host (conf ! 0)) of
                Inl e \<Rightarrow> (g', Inl (ErrNew (''cant fetch domain name from '' @ Host (conf ! 0))))
              | Inr (dnsResolverName, port) \<Rightarrow>
                  (let addr = map Host conf;
                       dial = Dial opts @ [WithBalancerName roundrobin_Name];
                       tgt = resolver_Scheme S @ '':///'' @ dnsResolverName
                   in (case DialContext S tgt dial addr of
                         Some e \<Rightarrow> (g', Inl (Wrap ''grpc dial: '' e))
                       | None \<Rightarrow>
                           (g', Inr \<lparr>target = tgt, dialOptions = dial, addresses = addr\<rparr>))))))"


section \<open>Scenarios of the specification as concrete runs\<close>

text \<open>
  Scenario S1: channel \<open>mychannel\<close>, chaincode \<open>cc1\<close>, endorsing MSPs \<open>Org1MSP\<close> and
  \<open>Org2MSP\<close>; every peer answers with payload \<open>0x01\<close> and the orderer accepts. The
  argument of \<open>S1_env\<close> is what the default tx-waiter constructor returns in the run.
\<close>

definition S1_pool :: PeerPool where
  "S1_pool msps proposal =
     Inr (map (\<lambda>m. \<lparr>Response = Some \<lparr>Status = 200, Message = '''', Payload = [1]\<rparr>, Endorser = m\<rparr>) msps)"

definition S1_core :: Core where
  "S1_core =
     \<lparr>identity = ''User1@Org1MSP'', peerPool = S1_pool, orderer = Some (\<lambda>envelope. None),
      endorsingMSPs = [''Org1MSP'', ''Org2MSP''], channelName = ''mychannel'', name = ''cc1''\<rparr>"

definition S1_env :: "error + TxWaiter \<Rightarrow> env" where
  "S1_env w =
     \<lparr>mapOrder = (\<lambda>es. es), txwaiter_Self = (\<lambda>d. w), tx_FnArgs = (\<lambda>f as. as),
      Endorsement_SignedProposal = (\<lambda>e. Inr (\<lparr>ProposalBytes = [], Signature = []\<rparr>, ''tx1'')),
      proto_Unmarshal_Proposal = (\<lambda>b. Inr b),
      protoutil_CreateSignedTx = (\<lambda>prop ident rs. Inr \<lparr>EnvPayload = prop, EnvSignature = []\<rparr>)\<rparr>"

text \<open>
  A toy wire format for blocks: an empty entry is not an envelope, the entry \<open>[1]\<close> is
  transaction \<open>tx1\<close>, any other entry is transaction \<open>tx0\<close>; and the two rows of the
  validation code table that the scenarios use (S1: VALID, S4: code 11).
\<close>

definition demo_protoutil :: protoutil where
  "demo_protoutil =
     \<lparr>GetEnvelopeFromBlock =
        (\<lambda>r. if r = [] then Inl (ErrNew ''error unmarshalling Envelope'')
             else Inr \<lparr>EnvPayload = r, EnvSignature = []\<rparr>),
      UnmarshalPayload = (\<lambda>p. Inr \<lparr>Header = Some \<lparr>ChannelHeader = p, SignatureHeader = []\<rparr>\<rparr>),
      UnmarshalChannelHeader =
        (\<lambda>h. Inr \<lparr>ChannelId = ''mychannel'', TxId = (if h = [1] then ''tx1'' else ''tx0'')\<rparr>),
      TxValidationCode_name =
        (\<lambda>c. if c = 0 then Some ''VALID'' else if c = 11 then Some ''MVCC_READ_CONFLICT'' else None)\<rparr>"

text \<open>
  The two responses the pool of S1 returns for \<open>Org1MSP\<close> and \<open>Org2MSP\<close>. A hub whose
  stream on \<open>mychannel\<close> delivers the given blocks, with an idle error side. The block of
  S1, which flags the transaction \<open>tx1\<close> VALID; the block of S4, which flags it with
  code 11; and a block in which an entry that is no envelope stands before \<open>tx1\<close>,
  flagged VALID.
\<close>

definition S1_responses :: "ProposalResponse list" where
  "S1_responses =
     [\<lparr>Response = Some \<lparr>Status = 200, Message = '''', Payload = [1]\<rparr>, Endorser = ''Org1MSP''\<rparr>,
      \<lparr>Response = Some \<lparr>Status = 200, Message = '''', Payload = [1]\<rparr>, Endorser = ''Org2MSP''\<rparr>]"

definition demo_hub :: "Block option list \<Rightarrow> hub" where
  "demo_hub bs =
     \<lparr>stream_blocks = (\<lambda>channel. if channel = ''mychannel'' then bs else []),
      stream_errors = (\<lambda>channel. \<lparr>Err = make_chan 1\<rparr>),
      select_result = True\<rparr>"

definition S1_block :: Block where
  "S1_block = \<lparr>Data = [[2], [1]], Metadata = [[], [], [0, 0]]\<rparr>"

definition S4_block :: Block where
  "S4_block = \<lparr>Data = [[2], [1]], Metadata = [[], [], [0, 11]]\<rparr>"

definition garbled_block :: Block where
  "garbled_block = \<lparr>Data = [[], [1]], Metadata = [[], [], [2, 0]]\<rparr>"

text \<open>
  A Go-syntax rendering of 72 bytes (a struct with a function and a channel, which
  \<open>json.Marshal\<close> refuses), and its first 50 bytes.
\<close>

definition long_arg :: string where
  "long_arg = ''struct { F func(); G chan int }{F:(func())(0x47b5e0), G:(chan int)(nil)}''"

definition long_arg_50 :: string where
  "long_arg_50 = ''struct { F func(); G chan int }{F:(func())(0x47b5e''"

text \<open>
  A system for the connection factory in which every file is readable and every dial
  succeeds, with the rendering of the two durations the runs use; two orderer endpoints,
  the first in plaintext and the second with TLS, and a peer endpoint with a timeout of
  five seconds and no retry block.
\<close>

definition demo_sys :: sys where
  "demo_sys =
     \<lparr>ReadFile = (\<lambda>path. Inr [45, 45]),
      AppendCertsFromPEM = (\<lambda>pem. Some [pem]),
      SystemCertPool = Inr [],
      LoadX509KeyPair = (\<lambda>certPath keyPath. Inr \<lparr>Certificate = [[48]]\<rparr>),
      sha256_Sum256 = (\<lambda>cert. cert),
      Duration_String = (\<lambda>d. if d = 5 * Second then ''5s'' else ''0s''),
      SplitHostPort = (\<lambda>hostport. Inr (takeWhile (\<lambda>c. c \<noteq> CHR '':'') hostport, ''7050'')),
      resolver_Scheme = ''manual'',
      DialContext = (\<lambda>tgt opts addrs. None)\<rparr>"

definition orderer0 :: ConnectionConfig where
  "orderer0 =
     \<lparr>Host = ''orderer0:7050'',
      Tls = \<lparr>Enabled = False, SkipVerify = False, CACertPath = '''', CertPath = '''', KeyPath = ''''\<rparr>,
      GRPC = \<lparr>KeepAlive = None,
              Retry = Some \<lparr>Max_retry = 3, Timeout_retry = 2 * Second\<rparr>\<rparr>,
      Timeout = 0\<rparr>"

definition orderer1 :: ConnectionConfig where
  "orderer1 =
     \<lparr>Host = ''orderer1:7050'',
      Tls = \<lparr>Enabled = True, SkipVerify = True, CACertPath = ''/tls/ca.pem'', CertPath = '''', KeyPath = ''''\<rparr>,
      GRPC = \<lparr>KeepAlive = None,
              Retry = Some \<lparr>Max_retry = 3, Timeout_retry = 2 * Second\<rparr>\<rparr>,
      Timeout = 0\<rparr>"

definition peer0 :: ConnectionConfig where
  "peer0 =
     \<lparr>Host = ''peer0:7051'',
      Tls = \<lparr>Enabled = False, SkipVerify = False, CACertPath = '''', CertPath = '''', KeyPath = ''''\<rparr>,
      GRPC = \<lparr>KeepAlive = None, Retry = None\<rparr>,
      Timeout = 5 * Second\<rparr>"


section \<open>Properties\<close>

subsection \<open>MSP configuration\<close>

text \<open>
  Claim C9. For every MSP value and every behaviour of \<open>identity.MSPFromPath\<close>: an empty
  ID fails with \<open>ErrMSPIDEmpty\<close>, whatever the path; a non-empty ID with an empty path
  fails with \<open>ErrMSPPathEmpty\<close>; and when the MSP configuration was loaded, \<open>Signer\<close>
  fails with \<open>ErrSignerNotFound\<close> exactly when that configuration yields no signer. The
  last conjunct says the same without naming the loaded configuration, for a loader that
  does not itself return the sentinel of package config.
\<close>

theorem MSP_failure_mapping:
  "(ID m = '''' \<longrightarrow> MSP_MSP F m = Inl ErrMSPIDEmpty \<and> MSP_Signer F m = Inl ErrMSPIDEmpty) \<and>
   (ID m \<noteq> '''' \<and> Path m = '''' \<longrightarrow>
      MSP_MSP F m = Inl ErrMSPPathEmpty \<and> MSP_Signer F m = Inl ErrMSPPathEmpty) \<and>
   (\<forall>cfg. MSP_MSP F m = Inr cfg \<longrightarrow>
      (MSP_Signer F m = Inl ErrSignerNotFound \<longleftrightarrow> identity_Signer cfg = None)) \<and>
   (F (ID m) (Path m) \<noteq> Inl ErrSignerNotFound \<longrightarrow>
      (MSP_Signer F m = Inl ErrSignerNotFound \<longleftrightarrow>
         (\<exists>cfg. MSP_MSP F m = Inr cfg \<and> identity_Signer cfg = None)))"
  by (auto simp: MSP_MSP_def MSP_Signer_def split: sum.splits option.splits if_splits)

theorem MSP_failure_mapping_witness:
  "MSP_MSP (\<lambda>i p. Inr \<lparr>identity_Signer = None\<rparr>) \<lparr>ID = '''', Path = ''''\<rparr> = Inl ErrMSPIDEmpty \<and>
   MSP_MSP (\<lambda>i p. Inr \<lparr>identity_Signer = None\<rparr>) \<lparr>ID = ''Org1MSP'', Path = ''''\<rparr> = Inl ErrMSPPathEmpty \<and>
   MSP_Signer (\<lambda>i p. Inr \<lparr>identity_Signer = None\<rparr>) \<lparr>ID = ''Org1MSP'', Path = ''/msp''\<rparr> = Inl ErrSignerNotFound \<and>
   MSP_Signer (\<lambda>i p. Inr \<lparr>identity_Signer = Some ''admin''\<rparr>) \<lparr>ID = ''Org1MSP'', Path = ''/msp''\<rparr> \<noteq> Inl ErrSignerNotFound"
  using MSP_failure_mapping [of "\<lparr>ID = '''', Path = ''''\<rparr>" "\<lambda>i p. Inr \<lparr>identity_Signer = None\<rparr>"]
    MSP_failure_mapping [of "\<lparr>ID = ''Org1MSP'', Path = ''''\<rparr>" "\<lambda>i p. Inr \<lparr>identity_Signer = None\<rparr>"]
    MSP_failure_mapping [of "\<lparr>ID = ''Org1MSP'', Path = ''/msp''\<rparr>" "\<lambda>i p. Inr \<lparr>identity_Signer = None\<rparr>"]
    MSP_failure_mapping [of "\<lparr>ID = ''Org1MSP'', Path = ''/msp''\<rparr>" "\<lambda>i p. Inr \<lparr>identity_Signer = Some ''admin''\<rparr>"]
  by (simp add: MSP_MSP_def)

subsection \<open>TxID subscription\<close>

text \<open>The loop steps over entries that parse and carry another transaction id.\<close>

lemma Handler_loop_passes:
  "\<forall>r\<in>set pre. passes P ts r \<Longrightarrow>
   Handler_loop P ts txFilter i (pre @ rest) = Handler_loop P ts txFilter (i + length pre) rest"
proof (induction pre arbitrary: i)
  case Nil
  then show ?case by simp
next
  case (Cons r pre)
  from Cons.prems have p: "passes P ts r" and rest: "\<forall>r\<in>set pre. passes P ts r" by simp_all
  from p have "Handler_loop P ts txFilter i (r # (pre @ rest)) = Handler_loop P ts txFilter (i + 1) (pre @ rest)"
    by (auto simp: passes_def parseTx_def split: sum.splits option.splits parsed.splits)
  with Cons.IH [OF rest, of "i + 1"] show ?case by simp
qed

lemma Handler_loop_Malformed:
  "parseTx P r = Malformed e \<Longrightarrow> Handler_loop P ts txFilter i (r # rs) = resolve ts \<lparr>code = 0, err = Some e\<rparr>"
  by (auto simp: parseTx_def split: sum.splits option.splits)

lemma Handler_loop_awaited:
  "parseTx P r = Parsed chHeader \<Longrightarrow> TxId chHeader = txId ts \<Longrightarrow> i < length txFilter \<Longrightarrow>
   Handler_loop P ts txFilter i (r # rs) =
     resolve ts \<lparr>code = uint (txFilter ! i),
                err = (if uint (txFilter ! i) = TxValidationCode_VALID then None
                       else Some (ErrNew (''TxId validation code failed: '' @ codeName P (uint (txFilter ! i)))))\<rparr>"
  by (auto simp: parseTx_def IsValid_def Flag_def split: sum.splits option.splits)

lemma resolve_pending:
  "result ts = make_chan 1 \<Longrightarrow>
   resolve ts r = Returns (ts\<lparr>result := \<lparr>buf = [r], cap = 1, closed = False\<rparr>\<rparr>, True)"
  by (simp add: resolve_def send_def make_chan_def)

lemma Handler_reaches:
  assumes "BlockMetadataIndex_TRANSACTIONS_FILTER < length (Metadata b)"
    and "i < length (Data b)" and "\<forall>j<i. passes P ts (Data b ! j)"
  shows "Handler P ts (Some b) =
           Handler_loop P ts (Metadata b ! BlockMetadataIndex_TRANSACTIONS_FILTER) i
             (Data b ! i # drop (Suc i) (Data b))"
proof -
  have split: "Data b = take i (Data b) @ (Data b ! i # drop (Suc i) (Data b))"
    using assms(2) by (simp add: id_take_nth_drop [symmetric])
  have "\<forall>r\<in>set (take i (Data b)). passes P ts r"
    using assms(2,3) by (auto simp: in_set_conv_nth)
  from Handler_loop_passes [OF this, of "Metadata b ! BlockMetadataIndex_TRANSACTIONS_FILTER" 0
      "Data b ! i # drop (Suc i) (Data b)"]
  have "Handler_loop P ts (Metadata b ! BlockMetadataIndex_TRANSACTIONS_FILTER) 0 (Data b) =
        Handler_loop P ts (Metadata b ! BlockMetadataIndex_TRANSACTIONS_FILTER) i
          (Data b ! i # drop (Suc i) (Data b))"
    using split assms(2) by simp
  then show ?thesis using assms(1) by (simp add: Handler_def)
qed

lemma Result_resolved:
  assumes "ErrorCloser ts = Some ec" and "\<not> ready (Err ec)" and "buf (result ts) = [r]"
  shows "Result pick ts = Returns ((code r, err r), ts\<lparr>result := (result ts)\<lparr>buf := []\<rparr>\<rparr>)"
  using assms by (simp add: Result_def ready_def recvResult_def recv_def)

lemma Handler_awaited:
  assumes "BlockMetadataIndex_TRANSACTIONS_FILTER < length (Metadata b)"
    and "i < length (Data b)"
    and "i < length (Metadata b ! BlockMetadataIndex_TRANSACTIONS_FILTER)"
    and "\<forall>j<i. passes P ts (Data b ! j)"
    and "parseTx P (Data b ! i) = Parsed chHeader" and "TxId chHeader = txId ts"
    and "result ts = make_chan 1"
  shows "Handler P ts (Some b) =
     Returns (ts\<lparr>result :=
        \<lparr>buf = [\<lparr>code = uint (Metadata b ! BlockMetadataIndex_TRANSACTIONS_FILTER ! i),
                 err = (if uint (Metadata b ! BlockMetadataIndex_TRANSACTIONS_FILTER ! i) = TxValidationCode_VALID
                        then None
                        else Some (ErrNew (''TxId validation code failed: '' @
                               codeName P (uint (Metadata b ! BlockMetadataIndex_TRANSACTIONS_FILTER ! i)))))\<rparr>],
         cap = 1, closed = False\<rparr>\<rparr>, True)"
  using Handler_reaches [OF assms(1,2,4)] Handler_loop_awaited [OF assms(5,6,3)] resolve_pending [OF assms(7)]
  by simp

text \<open>
  Claim C10. When the loop of \<open>Handler\<close> comes to an entry of the block that fails to
  parse (the envelope, the payload or the channel header; the entries before it parsed
  and carried other transaction ids), a pending subscription is resolved at once with
  validation code 0 (the value of VALID) and that parse error, and \<open>Handler\<close> reports
  the block as handled. Nothing is asked of the entries after it: the awaited
  transaction may stand later in the block, or in a later block.
\<close>

theorem Handler_parse_failure:
  assumes "BlockMetadataIndex_TRANSACTIONS_FILTER < length (Metadata b)"
    and "i < length (Data b)"
    and "\<forall>j<i. passes P ts (Data b ! j)"
    and "parseTx P (Data b ! i) = Malformed e"
    and "result ts = make_chan 1"
  shows "Handler P ts (Some b) =
           Returns (ts\<lparr>result := \<lparr>buf = [\<lparr>code = TxValidationCode_VALID, err = Some e\<rparr>], cap = 1, closed = False\<rparr>\<rparr>, True)"
  using Handler_reaches [OF assms(1,2,3)] Handler_loop_Malformed [OF assms(4)] resolve_pending [OF assms(5)]
  by (simp add: TxValidationCode_VALID_def)

theorem Handler_parse_failure_witness:
  "BlockMetadataIndex_TRANSACTIONS_FILTER < length (Metadata \<lparr>Data = [[2], [], [1]], Metadata = [[], [], [0, 2, 0]]\<rparr>) \<and>
   passes demo_protoutil (NewTxSubscription ''tx1'') (Data \<lparr>Data = [[2], [], [1]], Metadata = [[], [], [0, 2, 0]]\<rparr> ! 0) \<and>
   parseTx demo_protoutil [] = Malformed (ErrNew ''error unmarshalling Envelope'') \<and>
   parseTx demo_protoutil [1] = Parsed \<lparr>ChannelId = ''mychannel'', TxId = ''tx1''\<rparr> \<and>
   Handler demo_protoutil (NewTxSubscription ''tx1'') (Some \<lparr>Data = [[2], [], [1]], Metadata = [[], [], [0, 2, 0]]\<rparr>) =
     Returns ((NewTxSubscription ''tx1'')
        \<lparr>result := \<lparr>buf = [\<lparr>code = 0, err = Some (ErrNew ''error unmarshalling Envelope'')\<rparr>], cap = 1, closed = False\<rparr>\<rparr>, True)"
  using Handler_parse_failure [of "\<lparr>Data = [[2], [], [1]], Metadata = [[], [], [0, 2, 0]]\<rparr>" 1
      demo_protoutil "NewTxSubscription ''tx1''" "ErrNew ''error unmarshalling Envelope''"]
  by (simp add: BlockMetadataIndex_TRANSACTIONS_FILTER_def passes_def parseTx_def demo_protoutil_def
      NewTxSubscription_def TxValidationCode_VALID_def)

text \<open>
  Claim C5. A served subscription that has seen no transaction (its result channel is
  open and empty) and whose error channel carries no nil error: when the stream closes,
  \<open>Handler\<close> receives the nil block, closes the result channel and reports false; then
  \<open>Result\<close> returns, whatever the select picks, with code -1 and a non-nil error.
\<close>

theorem Result_after_stream_closed:
  assumes "ErrorCloser ts = Some ec"
    and "buf (result ts) = []" and "\<not> closed (result ts)"
    and "None \<notin> set (buf (Err ec))"
  shows "\<exists>ts'. Handler P ts None = Returns (ts', False) \<and>
           (\<exists>e ts''. Result pick ts' = Returns ((- 1, Some e), ts''))"
proof -
  have h: "Handler P ts None = Returns (ts\<lparr>result := (result ts)\<lparr>closed := True\<rparr>\<rparr>, False)"
    using assms(3) by (simp add: Handler_def close_chan_def)
  have "\<exists>e ts''. Result pick (ts\<lparr>result := (result ts)\<lparr>closed := True\<rparr>\<rparr>) = Returns ((- 1, Some e), ts'')"
  proof (cases "buf (Err ec)")
    case Nil
    then show ?thesis using assms(1,2)
      by (simp add: Result_def ready_def recv_def recvResult_def)
  next
    case (Cons m ms)
    with assms(4) obtain e where "m = Some e" by (cases m) auto
    with Cons show ?thesis using assms(1,2)
      by (simp add: Result_def ready_def recv_def recvResult_def)
  qed
  with h show ?thesis by blast
qed

theorem Result_after_stream_closed_witness:
  "ErrorCloser (Serve (NewTxSubscription ''tx1'') \<lparr>Err = make_chan 1\<rparr>) = Some \<lparr>Err = make_chan 1\<rparr> \<and>
   buf (result (Serve (NewTxSubscription ''tx1'') \<lparr>Err = make_chan 1\<rparr>)) = [] \<and>
   \<not> closed (result (Serve (NewTxSubscription ''tx1'') \<lparr>Err = make_chan 1\<rparr>)) \<and>
   None \<notin> set (buf (Err \<lparr>Err = (make_chan 1 :: error option chan)\<rparr>)) \<and>
   (\<exists>ts'. Handler demo_protoutil (Serve (NewTxSubscription ''tx1'') \<lparr>Err = make_chan 1\<rparr>) None = Returns (ts', False) \<and>
      (\<exists>e ts''. Result True ts' = Returns ((- 1, Some e), ts'')))"
  using Result_after_stream_closed [of "Serve (NewTxSubscription ''tx1'') \<lparr>Err = make_chan 1\<rparr>"
      "\<lparr>Err = make_chan 1\<rparr>" demo_protoutil True]
  by (simp add: Serve_def NewTxSubscription_def make_chan_def)

text \<open>
  Claim C4, as the code has it. Take a block with its TRANSACTIONS_FILTER metadata, and an
  entry \<open>i\<close> of its data, with a flag at \<open>i\<close>, whose channel header carries the awaited
  transaction id, while every entry before it parses and carries another id. Then
  \<open>Handler\<close> resolves a pending subscription with the flag at \<open>i\<close> and reports the block
  as handled: the error is nil when the flag is VALID, and otherwise its text is
  \<open>TxId validation code failed: \<close> followed by the name the code table has for the flag.
  \<open>Result\<close> of a served subscription with an idle error channel returns that pair.
\<close>

theorem Handler_resolves_awaited_tx:
  fixes P :: protoutil and ts :: TxSubscription and b :: Block and i :: nat
  defines "flag \<equiv> uint (Metadata b ! BlockMetadataIndex_TRANSACTIONS_FILTER ! i)"
  defines "r \<equiv> \<lparr>code = flag,
                err = (if flag = TxValidationCode_VALID then None
                       else Some (ErrNew (''TxId validation code failed: '' @ codeName P flag)))\<rparr>"
  assumes "BlockMetadataIndex_TRANSACTIONS_FILTER < length (Metadata b)"
    and "i < length (Data b)"
    and "i < length (Metadata b ! BlockMetadataIndex_TRANSACTIONS_FILTER)"
    and "\<forall>j<i. passes P ts (Data b ! j)"
    and "parseTx P (Data b ! i) = Parsed chHeader" and "TxId chHeader = txId ts"
    and "result ts = make_chan 1"
  shows "Handler P ts (Some b) = Returns (ts\<lparr>result := \<lparr>buf = [r], cap = 1, closed = False\<rparr>\<rparr>, True) \<and>
         (\<forall>ec pick. ErrorCloser ts = Some ec \<and> \<not> ready (Err ec) \<longrightarrow>
            (\<exists>ts'. Result pick (ts\<lparr>result := \<lparr>buf = [r], cap = 1, closed = False\<rparr>\<rparr>) = Returns ((code r, err r), ts')))"
proof -
  have "Handler P ts (Some b) = Returns (ts\<lparr>result := \<lparr>buf = [r], cap = 1, closed = False\<rparr>\<rparr>, True)"
    unfolding r_def flag_def by (rule Handler_awaited [OF assms(3-9)])
  moreover have "\<exists>ts'. Result pick (ts\<lparr>result := \<lparr>buf = [r], cap = 1, closed = False\<rparr>\<rparr>) = Returns ((code r, err r), ts')"
    if "ErrorCloser ts = Some ec" and "\<not> ready (Err ec)" for ec pick
    using Result_resolved [of "ts\<lparr>result := \<lparr>buf = [r], cap = 1, closed = False\<rparr>\<rparr>" ec r pick] that
    by simp
  ultimately show ?thesis by blast
qed

theorem Handler_resolves_awaited_tx_witness:
  "BlockMetadataIndex_TRANSACTIONS_FILTER < length (Metadata \<lparr>Data = [[2], [1]], Metadata = [[], [], [0, 11]]\<rparr>) \<and>
   passes demo_protoutil (Serve (NewTxSubscription ''tx1'') \<lparr>Err = make_chan 1\<rparr>)
     (Data \<lparr>Data = [[2], [1]], Metadata = [[], [], [0, 11]]\<rparr> ! 0) \<and>
   parseTx demo_protoutil [1] = Parsed \<lparr>ChannelId = ''mychannel'', TxId = ''tx1''\<rparr> \<and>
   Handler demo_protoutil (Serve (NewTxSubscription ''tx1'') \<lparr>Err = make_chan 1\<rparr>)
       (Some \<lparr>Data = [[2], [1]], Metadata = [[], [], [0, 11]]\<rparr>) =
     Returns (\<lparr>txId = ''tx1'',
               result = \<lparr>buf = [\<lparr>code = 11, err = Some (ErrNew ''TxId validation code failed: MVCC_READ_CONFLICT'')\<rparr>],
                         cap = 1, closed = False\<rparr>,
               ErrorCloser = Some \<lparr>Err = make_chan 1\<rparr>\<rparr>, True) \<and>
   (\<exists>ts'. Result False
       \<lparr>txId = ''tx1'',
        result = \<lparr>buf = [\<lparr>code = 11, err = Some (ErrNew ''TxId validation code failed: MVCC_READ_CONFLICT'')\<rparr>],
                  cap = 1, closed = False\<rparr>,
        ErrorCloser = Some \<lparr>Err = make_chan 1\<rparr>\<rparr> =
     Returns ((11, Some (ErrNew ''TxId validation code failed: MVCC_READ_CONFLICT'')), ts'))"
  using Handler_resolves_awaited_tx [of "\<lparr>Data = [[2], [1]], Metadata = [[], [], [0, 11]]\<rparr>" 1
      demo_protoutil "Serve (NewTxSubscription ''tx1'') \<lparr>Err = make_chan 1\<rparr>"
      "\<lparr>ChannelId = ''mychannel'', TxId = ''tx1''\<rparr>"]
  by (simp add: BlockMetadataIndex_TRANSACTIONS_FILTER_def passes_def parseTx_def demo_protoutil_def
      NewTxSubscription_def Serve_def TxValidationCode_VALID_def codeName_def ready_def make_chan_def)

text \<open>
  The claim as stated, for every block that contains the awaited transaction, fails on a
  block whose first entry is no envelope and whose second entry is the awaited
  transaction \<open>tx1\<close> with flag 11: the subscription is resolved with code 0 and the
  parse error of the first entry, not with flag 11 and its name.
\<close>

theorem Handler_awaited_tx_counterexample:
  "parseTx demo_protoutil (Data \<lparr>Data = [[], [1]], Metadata = [[], [], [2, 11]]\<rparr> ! 1)
     = Parsed \<lparr>ChannelId = ''mychannel'', TxId = ''tx1''\<rparr> \<and>
   Flag (Metadata \<lparr>Data = [[], [1]], Metadata = [[], [], [2, 11]]\<rparr> ! BlockMetadataIndex_TRANSACTIONS_FILTER) 1 = Returns 11 \<and>
   Handler demo_protoutil (NewTxSubscription ''tx1'') (Some \<lparr>Data = [[], [1]], Metadata = [[], [], [2, 11]]\<rparr>) =
     Returns ((NewTxSubscription ''tx1'')
        \<lparr>result := \<lparr>buf = [\<lparr>code = 0, err = Some (ErrNew ''error unmarshalling Envelope'')\<rparr>], cap = 1, closed = False\<rparr>\<rparr>, True) \<and>
   Handler demo_protoutil (NewTxSubscription ''tx1'') (Some \<lparr>Data = [[], [1]], Metadata = [[], [], [2, 11]]\<rparr>) \<noteq>
     Returns ((NewTxSubscription ''tx1'')
        \<lparr>result := \<lparr>buf = [\<lparr>code = 11, err = Some (ErrNew ''TxId validation code failed: MVCC_READ_CONFLICT'')\<rparr>],
                     cap = 1, closed = False\<rparr>\<rparr>, True)"
  by (simp add: parseTx_def demo_protoutil_def Flag_def Handler_def BlockMetadataIndex_TRANSACTIONS_FILTER_def
      NewTxSubscription_def resolve_def send_def make_chan_def)

subsection \<open>The invoke builder's Do\<close>

text \<open>
  A run of \<open>Do\<close> in which the argument map is empty, the orderer is set, the waiter was
  built, the options applied, the proposal signed, the fan-out returned as many responses
  as MSPs were asked (at least one), the envelope was assembled and the orderer accepted
  it: \<open>Do\<close> returns what the waiter returns as its error, with the first response when
  that error is nil.
\<close>

lemma Do_reaches_Wait:
  assumes "errArgMap_Err (mapOrder E) (invokeBuilder.err b) = None"
    and "orderer (ccCore b) = Some ord"
    and "txwaiter_Self E (defaultDoOptions (ccCore b)) = Inr w0"
    and "applyOptions (doOptions b @ options) ((defaultDoOptions (ccCore b))\<lparr>TxWaiter := Some w0\<rparr>) = Inr doOpts"
    and "Endorsement_SignedProposal E
           \<lparr>Channel = channelName (ccCore b), Chaincode = name (ccCore b),
            Args = tx_FnArgs E (fn b) (args b), Signer = Identity doOpts,
            TransientMap = transientArgs b\<rparr> = Inr (proposal, txID)"
    and "peerPool (ccCore b) (EndorsingMspIDs doOpts) proposal = Inr peerResponses"
    and "peerResponses \<noteq> []" and "length peerResponses = length (EndorsingMspIDs doOpts)"
    and "CreateEnvelope E proposal peerResponses (Identity doOpts) = Inr envelope"
    and "ord envelope = None"
    and "TxWaiter doOpts = Some w"
    and "w (channelName (ccCore b)) txID = Returns e"
  shows "Do E b options =
           Returns (((case e of None \<Rightarrow> Response (peerResponses ! 0) | Some x \<Rightarrow> None), txID, e),
                    [CallTxWaiterSelf, CallEndorseOnMSPs (EndorsingMspIDs doOpts), CallBroadcast envelope,
                     CallWait (channelName (ccCore b)) txID])"
proof -
  have "Do E b options = Do_submit E b ord doOpts proposal txID"
    using assms(1-5) by (simp add: Do_def)
  also have "\<dots> = Returns (((case e of None \<Rightarrow> Response (peerResponses ! 0) | Some x \<Rightarrow> None), txID, e),
                    [CallTxWaiterSelf, CallEndorseOnMSPs (EndorsingMspIDs doOpts), CallBroadcast envelope,
                     CallWait (channelName (ccCore b)) txID])"
    using assms(6-12) by (auto simp: Do_submit_def split: option.splits)
  finally show ?thesis .
qed

text \<open>
  When the fan-out returns fewer responses than MSPs were asked, \<open>Do\<close> fails with an
  error that wraps \<open>ErrNotEnoughEndorsements\<close>, and the orderer is not called.
\<close>

lemma Do_not_enough_endorsements:
  assumes "errArgMap_Err (mapOrder E) (invokeBuilder.err b) = None"
    and "orderer (ccCore b) = Some ord"
    and "txwaiter_Self E (defaultDoOptions (ccCore b)) = Inr w0"
    and "applyOptions (doOptions b @ options) ((defaultDoOptions (ccCore b))\<lparr>TxWaiter := Some w0\<rparr>) = Inr doOpts"
    and "Endorsement_SignedProposal E
           \<lparr>Channel = channelName (ccCore b), Chaincode = name (ccCore b),
            Args = tx_FnArgs E (fn b) (args b), Signer = Identity doOpts,
            TransientMap = transientArgs b\<rparr> = Inr (proposal, txID)"
    and "peerPool (ccCore b) (EndorsingMspIDs doOpts) proposal = Inr peerResponses"
    and "length peerResponses < length (EndorsingMspIDs doOpts)"
  shows "Do E b options =
           Returns ((None, '''',
                     Some (Wrap (''endorsements received num='' @ fmt_d (int (length peerResponses))
                                 @ '', required='' @ fmt_d (int (length (EndorsingMspIDs doOpts))) @ '': '')
                                ErrNotEnoughEndorsements)),
                    [CallTxWaiterSelf, CallEndorseOnMSPs (EndorsingMspIDs doOpts)])"
proof -
  have "Do E b options = Do_submit E b ord doOpts proposal txID"
    using assms(1-5) by (simp add: Do_def)
  then show ?thesis using assms(6,7) by (auto simp: Do_submit_def)
qed

text \<open>
  A nil error of \<open>Do\<close> has one of two origins: the fan-out returned exactly as many
  responses as MSPs were asked, and at least one; or the default tx-waiter could not be
  built.
\<close>

lemma Do_submit_nil_error:
  "Do_submit E b ord doOpts proposal txID = Returns ((resp, t, None), tr) \<Longrightarrow>
   \<exists>peerResponses. peerPool (ccCore b) (EndorsingMspIDs doOpts) proposal = Inr peerResponses \<and>
      peerResponses \<noteq> [] \<and> length peerResponses = length (EndorsingMspIDs doOpts)"
  by (auto simp: Do_submit_def split: sum.splits option.splits if_splits outcome.splits)

lemma Do_nil_error_cases:
  assumes "Do E b options = Returns ((resp, t, None), tr)"
  shows "(\<exists>e. txwaiter_Self E (defaultDoOptions (ccCore b)) = Inl e) \<or>
         (\<exists>(doOpts :: DoOptions) proposal peerResponses.
            peerPool (ccCore b) (EndorsingMspIDs doOpts) proposal = Inr peerResponses \<and>
            peerResponses \<noteq> [] \<and> length peerResponses = length (EndorsingMspIDs doOpts))"
proof (cases "txwaiter_Self E (defaultDoOptions (ccCore b))")
  case (Inl e)
  then show ?thesis by blast
next
  case (Inr w0)
  with assms obtain ord doOpts proposal txID where
    "Do_submit E b ord doOpts proposal txID = Returns ((resp, t, None), tr)"
    by (auto simp: Do_def split: option.splits sum.splits prod.splits)
  from Do_submit_nil_error [OF this] obtain peerResponses where
    "peerPool (ccCore b) (EndorsingMspIDs doOpts) proposal = Inr peerResponses \<and>
       peerResponses \<noteq> [] \<and> length peerResponses = length (EndorsingMspIDs doOpts)" ..
  then show ?thesis by blast
qed

text \<open>
  Claim C1. The claim has \<open>Do\<close> return success only if the fan-out produced as many
  responses as there are endorsing MSPs. On the run of S1 in which the default tx-waiter
  cannot be built, \<open>Do\<close> returns a nil response, an empty txID and a nil error (which is
  success for a Go caller) although two MSPs were to endorse, and \<open>EndorseOnMSPs\<close> was
  never called: the only call made is the waiter constructor.
\<close>

theorem Do_nil_error_without_endorsement:
  "endorsingMSPs S1_core = [''Org1MSP'', ''Org2MSP''] \<and>
   Do (S1_env (Inl (ErrNew ''waiter init failed''))) ((NewInvokeBuilder S1_core ''set'')\<lparr>args := [[107], [118]]\<rparr>) []
     = Returns ((None, '''', None), [CallTxWaiterSelf])"
  by (simp add: Do_def S1_env_def S1_core_def NewInvokeBuilder_def newErrArgMap_def errArgMap_Err_def)

text \<open>
  The default waiter on a stream. The subscription it installs is pending and served;
  blocks that the handler steps over leave it as it is, so the outcome is decided by what
  follows them: nothing (the deadline passes), the nil block (the stream closed), or a
  block in which the loop meets an entry that fails to parse or the awaited transaction.
  The error side of the stream is idle throughout.
\<close>

lemma passes_Serve: "passes P (Serve ts ec) = passes P ts"
  by (rule ext) (simp add: passes_def Serve_def split: parsed.splits)

lemma quiet_Serve: "quiet P (Serve ts ec) block = quiet P ts block"
  by (cases block) (simp_all add: quiet_def passes_Serve)

lemma Handler_quiet:
  assumes "quiet P ts block"
  shows "Handler P ts block = Returns (ts, False) \<and> block \<noteq> None"
proof (cases block)
  case None
  with assms show ?thesis by (simp add: quiet_def)
next
  case (Some b)
  with assms have m: "BlockMetadataIndex_TRANSACTIONS_FILTER < length (Metadata b)"
    and p: "\<forall>r\<in>set (Data b). passes P ts r"
    by (simp_all add: quiet_def list_all_iff)
  from Handler_loop_passes [OF p, of "Metadata b ! BlockMetadataIndex_TRANSACTIONS_FILTER" 0 "[]"]
  have "Handler_loop P ts (Metadata b ! BlockMetadataIndex_TRANSACTIONS_FILTER) 0 (Data b) = Returns (ts, False)"
    by simp
  with m Some show ?thesis by (simp add: Handler_def)
qed

lemma deliver_quiet:
  "\<forall>block\<in>set pre. quiet P ts block \<Longrightarrow> deliver P ts (pre @ rest) = deliver P ts rest"
proof (induction pre)
  case Nil
  then show ?case by simp
next
  case (Cons block pre)
  from Cons.prems have "quiet P ts block" and rest: "\<forall>block\<in>set pre. quiet P ts block" by simp_all
  from Handler_quiet [OF this(1)] have "Handler P ts block = Returns (ts, False)" and "block \<noteq> None"
    by simp_all
  with Cons.IH [OF rest] show ?case by auto
qed

lemma Wait_after_quiet:
  assumes "stream_blocks H channel = pre @ rest"
    and "\<forall>block\<in>set pre. quiet P (NewTxSubscription txID) block"
  shows "txwaiter_Wait P H channel txID =
     (case deliver P (Serve (NewTxSubscription txID) (stream_errors H channel)) rest of
        Returns ts \<Rightarrow>
          (case Result (select_result H) ts of
             Returns (r, ts') \<Rightarrow> Returns (snd r)
           | Blocks \<Rightarrow> Returns (Some context_DeadlineExceeded)
           | Panics \<Rightarrow> Panics)
      | Blocks \<Rightarrow> Returns (Some context_DeadlineExceeded)
      | Panics \<Rightarrow> Panics)"
proof -
  have "\<forall>block\<in>set pre. quiet P (Serve (NewTxSubscription txID) (stream_errors H channel)) block"
    using assms(2) by (simp add: quiet_Serve)
  from deliver_quiet [OF this, of rest] show ?thesis
    by (simp add: txwaiter_Wait_def assms(1))
qed

lemma Wait_deadline:
  assumes "stream_blocks H channel = pre @ []"
    and "\<forall>block\<in>set pre. quiet P (NewTxSubscription txID) block"
    and "\<not> ready (Err (stream_errors H channel))"
  shows "txwaiter_Wait P H channel txID = Returns (Some context_DeadlineExceeded)"
  using assms(3)
  by (simp add: Wait_after_quiet [OF assms(1,2)] Result_def Serve_def NewTxSubscription_def
      ready_def make_chan_def)

lemma Wait_closed:
  assumes "stream_blocks H channel = pre @ None # rest'"
    and "\<forall>block\<in>set pre. quiet P (NewTxSubscription txID) block"
    and "\<not> ready (Err (stream_errors H channel))"
  shows "txwaiter_Wait P H channel txID = Returns (Some (ErrNew ''code is closed''))"
  using assms(3)
  by (simp add: Wait_after_quiet [OF assms(1,2)] Handler_def close_chan_def Result_def Serve_def
      NewTxSubscription_def ready_def make_chan_def recvResult_def recv_def)

lemma Wait_resolved:
  assumes "stream_blocks H channel = pre @ Some blk # rest'"
    and "\<forall>block\<in>set pre. quiet P (NewTxSubscription txID) block"
    and "\<not> ready (Err (stream_errors H channel))"
    and "Handler P (Serve (NewTxSubscription txID) (stream_errors H channel)) (Some blk) =
           Returns ((Serve (NewTxSubscription txID) (stream_errors H channel))
                      \<lparr>result := \<lparr>buf = [r], cap = 1, closed = False\<rparr>\<rparr>, True)"
  shows "txwaiter_Wait P H channel txID = Returns (err r)"
proof -
  let ?ts = "(Serve (NewTxSubscription txID) (stream_errors H channel))
               \<lparr>result := \<lparr>buf = [r], cap = 1, closed = False\<rparr>\<rparr>"
  have "Result (select_result H) ?ts = Returns ((code r, err r), ?ts\<lparr>result := (result ?ts)\<lparr>buf := []\<rparr>\<rparr>)"
    using assms(3) by (intro Result_resolved [of _ "stream_errors H channel"]) (simp_all add: Serve_def)
  then show ?thesis
    by (simp add: Wait_after_quiet [OF assms(1,2)] assms(4))
qed

lemma Wait_malformed:
  assumes "stream_blocks H channel = pre @ Some blk # rest'"
    and "\<forall>block\<in>set pre. quiet P (NewTxSubscription txID) block"
    and "\<not> ready (Err (stream_errors H channel))"
    and "BlockMetadataIndex_TRANSACTIONS_FILTER < length (Metadata blk)"
    and "i < length (Data blk)"
    and "\<forall>j<i. passes P (NewTxSubscription txID) (Data blk ! j)"
    and "parseTx P (Data blk ! i) = Malformed e"
  shows "txwaiter_Wait P H channel txID = Returns (Some e)"
proof -
  let ?ts = "Serve (NewTxSubscription txID) (stream_errors H channel)"
  have p: "\<forall>j<i. passes P ?ts (Data blk ! j)"
    using assms(6) by (simp add: passes_Serve)
  have pend: "result ?ts = make_chan 1"
    by (simp add: Serve_def NewTxSubscription_def)
  have "Handler P ?ts (Some blk) =
          Returns (?ts\<lparr>result := \<lparr>buf = [\<lparr>code = 0, err = Some e\<rparr>], cap = 1, closed = False\<rparr>\<rparr>, True)"
    using Handler_reaches [OF assms(4,5) p] Handler_loop_Malformed [OF assms(7)] resolve_pending [OF pend]
    by simp
  from Wait_resolved [OF assms(1,2,3) this] show ?thesis by simp
qed

lemma Wait_awaited:
  assumes "stream_blocks H channel = pre @ Some blk # rest'"
    and "\<forall>block\<in>set pre. quiet P (NewTxSubscription txID) block"
    and "\<not> ready (Err (stream_errors H channel))"
    and "BlockMetadataIndex_TRANSACTIONS_FILTER < length (Metadata blk)"
    and "i < length (Data blk)"
    and "\<forall>j<i. passes P (NewTxSubscription txID) (Data blk ! j)"
    and "parseTx P (Data blk ! i) = Parsed chHeader" and "TxId chHeader = txID"
    and "i < length (Metadata blk ! BlockMetadataIndex_TRANSACTIONS_FILTER)"
  shows "txwaiter_Wait P H channel txID =
           Returns (if uint (Metadata blk ! BlockMetadataIndex_TRANSACTIONS_FILTER ! i) = TxValidationCode_VALID
                    then None
                    else Some (ErrNew (''TxId validation code failed: '' @
                           codeName P (uint (Metadata blk ! BlockMetadataIndex_TRANSACTIONS_FILTER ! i)))))"
proof -
  let ?ts = "Serve (NewTxSubscription txID) (stream_errors H channel)"
  have p: "\<forall>j<i. passes P ?ts (Data blk ! j)"
    using assms(6) by (simp add: passes_Serve)
  have pend: "result ?ts = make_chan 1" and tx: "TxId chHeader = txId ?ts"
    using assms(8) by (simp_all add: Serve_def NewTxSubscription_def)
  from Wait_resolved [OF assms(1,2,3) Handler_awaited [OF assms(4,5,9) p assms(7) tx pend]]
  show ?thesis by simp
qed

text \<open>
  Claim C2, as the code has it. In a run of \<open>Do\<close> where all endorsements were collected
  and the broadcast accepted, \<open>Do\<close> returns the txID and the error of the tx-waiter: with
  a nil error the \<open>Response\<close> of the first peer response, with an error a nil response.
  With the default waiter on a stream whose error side is idle, after any blocks the
  handler steps over: the error is the deadline error when nothing follows, the
  stream-closed error when the stream closes, the parse error when the loop of the next
  block meets an entry that fails to parse, and when it meets the awaited transaction
  the error is nil exactly when its flag is VALID, and otherwise names the code.
\<close>

theorem Do_returns_waiter_outcome:
  fixes P :: protoutil and H :: hub and E :: env and b :: invokeBuilder
    and doOpts :: DoOptions and peerResponses :: "ProposalResponse list"
    and envelope :: Envelope and txID :: string
  defines "out \<equiv> \<lambda>e. Returns (((case e of None \<Rightarrow> Response (peerResponses ! 0) | Some x \<Rightarrow> None), txID, e),
                    [CallTxWaiterSelf, CallEndorseOnMSPs (EndorsingMspIDs doOpts), CallBroadcast envelope,
                     CallWait (channelName (ccCore b)) txID])"
  assumes "errArgMap_Err (mapOrder E) (invokeBuilder.err b) = None"
    and "orderer (ccCore b) = Some ord"
    and "txwaiter_Self E (defaultDoOptions (ccCore b)) = Inr w0"
    and "applyOptions (doOptions b @ options) ((defaultDoOptions (ccCore b))\<lparr>TxWaiter := Some w0\<rparr>) = Inr doOpts"
    and "Endorsement_SignedProposal E
           \<lparr>Channel = channelName (ccCore b), Chaincode = name (ccCore b),
            Args = tx_FnArgs E (fn b) (args b), Signer = Identity doOpts,
            TransientMap = transientArgs b\<rparr> = Inr (proposal, txID)"
    and "peerPool (ccCore b) (EndorsingMspIDs doOpts) proposal = Inr peerResponses"
    and "peerResponses \<noteq> []" and "length peerResponses = length (EndorsingMspIDs doOpts)"
    and "CreateEnvelope E proposal peerResponses (Identity doOpts) = Inr envelope"
    and "ord envelope = None"
    and "TxWaiter doOpts = Some w"
  shows "(\<forall>e. w (channelName (ccCore b)) txID = Returns e \<longrightarrow> Do E b options = out e) \<and>
         (w = txwaiter_Wait P H \<and> \<not> ready (Err (stream_errors H (channelName (ccCore b)))) \<and>
          stream_blocks H (channelName (ccCore b)) = pre @ rest \<and>
          (\<forall>block\<in>set pre. quiet P (NewTxSubscription txID) block) \<longrightarrow>
            (rest = [] \<longrightarrow> Do E b options = out (Some context_DeadlineExceeded)) \<and>
            (\<forall>rest'. rest = None # rest' \<longrightarrow> Do E b options = out (Some (ErrNew ''code is closed''))) \<and>
            (\<forall>blk rest' i.
               rest = Some blk # rest' \<and>
               BlockMetadataIndex_TRANSACTIONS_FILTER < length (Metadata blk) \<and>
               i < length (Data blk) \<and>
               (\<forall>j<i. passes P (NewTxSubscription txID) (Data blk ! j)) \<longrightarrow>
                 (\<forall>e. parseTx P (Data blk ! i) = Malformed e \<longrightarrow> Do E b options = out (Some e)) \<and>
                 (\<forall>chHeader.
                    parseTx P (Data blk ! i) = Parsed chHeader \<and> TxId chHeader = txID \<and>
                    i < length (Metadata blk ! BlockMetadataIndex_TRANSACTIONS_FILTER) \<longrightarrow>
                      Do E b options =
                        out (if uint (Metadata blk ! BlockMetadataIndex_TRANSACTIONS_FILTER ! i) = TxValidationCode_VALID
                             then None
                             else Some (ErrNew (''TxId validation code failed: '' @
                                    codeName P (uint (Metadata blk ! BlockMetadataIndex_TRANSACTIONS_FILTER ! i))))))))"
proof -
  have do: "Do E b options = out e" if "w (channelName (ccCore b)) txID = Returns e" for e
    unfolding out_def by (rule Do_reaches_Wait [OF assms(2-12) that])
  show ?thesis
  proof (intro conjI impI allI)
    fix e assume "w (channelName (ccCore b)) txID = Returns e"
    then show "Do E b options = out e" by (rule do)
  next
    assume a: "w = txwaiter_Wait P H \<and> \<not> ready (Err (stream_errors H (channelName (ccCore b)))) \<and>
          stream_blocks H (channelName (ccCore b)) = pre @ rest \<and>
          (\<forall>block\<in>set pre. quiet P (NewTxSubscription txID) block)"
      and "rest = []"
    then show "Do E b options = out (Some context_DeadlineExceeded)"
      by (intro do) (simp add: Wait_deadline [of H _ pre P txID])
  next
    fix rest'
    assume a: "w = txwaiter_Wait P H \<and> \<not> ready (Err (stream_errors H (channelName (ccCore b)))) \<and>
          stream_blocks H (channelName (ccCore b)) = pre @ rest \<and>
          (\<forall>block\<in>set pre. quiet P (NewTxSubscription txID) block)"
      and "rest = None # rest'"
    then show "Do E b options = out (Some (ErrNew ''code is closed''))"
      by (intro do) (simp add: Wait_closed [of H _ pre rest' P txID])
  next
    fix blk rest' i e
    assume a: "w = txwaiter_Wait P H \<and> \<not> ready (Err (stream_errors H (channelName (ccCore b)))) \<and>
          stream_blocks H (channelName (ccCore b)) = pre @ rest \<and>
          (\<forall>block\<in>set pre. quiet P (NewTxSubscription txID) block)"
      and b: "rest = Some blk # rest' \<and>
               BlockMetadataIndex_TRANSACTIONS_FILTER < length (Metadata blk) \<and>
               i < length (Data blk) \<and>
               (\<forall>j<i. passes P (NewTxSubscription txID) (Data blk ! j))"
      and c: "parseTx P (Data blk ! i) = Malformed e"
    then show "Do E b options = out (Some e)"
      by (intro do) (simp add: Wait_malformed [of H _ pre blk rest' P txID i e])
  next
    fix blk rest' i chHeader
    assume a: "w = txwaiter_Wait P H \<and> \<not> ready (Err (stream_errors H (channelName (ccCore b)))) \<and>
          stream_blocks H (channelName (ccCore b)) = pre @ rest \<and>
          (\<forall>block\<in>set pre. quiet P (NewTxSubscription txID) block)"
      and b: "rest = Some blk # rest' \<and>
               BlockMetadataIndex_TRANSACTIONS_FILTER < length (Metadata blk) \<and>
               i < length (Data blk) \<and>
               (\<forall>j<i. passes P (NewTxSubscription txID) (Data blk ! j))"
      and c: "parseTx P (Data blk ! i) = Parsed chHeader \<and> TxId chHeader = txID \<and>
                    i < length (Metadata blk ! BlockMetadataIndex_TRANSACTIONS_FILTER)"
    then show "Do E b options =
                 out (if uint (Metadata blk ! BlockMetadataIndex_TRANSACTIONS_FILTER ! i) = TxValidationCode_VALID
                      then None
                      else Some (ErrNew (''TxId validation code failed: '' @
                             codeName P (uint (Metadata blk ! BlockMetadataIndex_TRANSACTIONS_FILTER ! i)))))"
      by (intro do) (simp add: Wait_awaited [of H _ pre blk rest' P txID i chHeader])
  qed
qed

lemma Wait_S1: "txwaiter_Wait demo_protoutil (demo_hub [Some S1_block]) ''mychannel'' ''tx1'' = Returns None"
  by (simp add: txwaiter_Wait_def demo_hub_def S1_block_def Handler_def demo_protoutil_def Serve_def
      NewTxSubscription_def BlockMetadataIndex_TRANSACTIONS_FILTER_def IsValid_def Flag_def
      TxValidationCode_VALID_def codeName_def resolve_def send_def make_chan_def
      Result_def ready_def recvResult_def recv_def)

lemma Wait_S4:
  "txwaiter_Wait demo_protoutil (demo_hub [Some S4_block]) ''mychannel'' ''tx1'' =
     Returns (Some (ErrNew ''TxId validation code failed: MVCC_READ_CONFLICT''))"
  by (simp add: txwaiter_Wait_def demo_hub_def S4_block_def Handler_def demo_protoutil_def Serve_def
      NewTxSubscription_def BlockMetadataIndex_TRANSACTIONS_FILTER_def IsValid_def Flag_def
      TxValidationCode_VALID_def codeName_def resolve_def send_def make_chan_def
      Result_def ready_def recvResult_def recv_def)

lemma Wait_garbled:
  "txwaiter_Wait demo_protoutil (demo_hub [Some garbled_block]) ''mychannel'' ''tx1'' =
     Returns (Some (ErrNew ''error unmarshalling Envelope''))"
  by (simp add: txwaiter_Wait_def demo_hub_def garbled_block_def Handler_def demo_protoutil_def Serve_def
      NewTxSubscription_def BlockMetadataIndex_TRANSACTIONS_FILTER_def
      resolve_def send_def make_chan_def Result_def ready_def recvResult_def recv_def)

text \<open>The run of S1 up to the wait, for any waiter the constructor hands back.\<close>

lemma S1_run:
  fixes w :: TxWaiter
  defines "E \<equiv> S1_env (Inr w)" and "b \<equiv> NewInvokeBuilder S1_core ''set''"
  defines "d \<equiv> (defaultDoOptions (ccCore b))\<lparr>TxWaiter := Some w\<rparr>"
  shows "errArgMap_Err (mapOrder E) (invokeBuilder.err b) = None"
    and "orderer (ccCore b) = Some (\<lambda>envelope. None)"
    and "txwaiter_Self E (defaultDoOptions (ccCore b)) = Inr w"
    and "applyOptions (doOptions b @ []) ((defaultDoOptions (ccCore b))\<lparr>TxWaiter := Some w\<rparr>) = Inr d"
    and "Endorsement_SignedProposal E
           \<lparr>Channel = channelName (ccCore b), Chaincode = name (ccCore b),
            Args = tx_FnArgs E (fn b) (args b), Signer = Identity d,
            TransientMap = transientArgs b\<rparr> = Inr (\<lparr>ProposalBytes = [], Signature = []\<rparr>, ''tx1'')"
    and "peerPool (ccCore b) (EndorsingMspIDs d) \<lparr>ProposalBytes = [], Signature = []\<rparr> = Inr S1_responses"
    and "S1_responses \<noteq> []"
    and "length S1_responses = length (EndorsingMspIDs d)"
    and "CreateEnvelope E \<lparr>ProposalBytes = [], Signature = []\<rparr> S1_responses (Identity d) =
           Inr \<lparr>EnvPayload = [], EnvSignature = []\<rparr>"
    and "TxWaiter d = Some w"
  by (simp_all add: E_def b_def d_def S1_env_def S1_core_def S1_pool_def S1_responses_def
      NewInvokeBuilder_def newErrArgMap_def errArgMap_Err_def defaultDoOptions_def CreateEnvelope_def)

lemma S1_values:
  "channelName (ccCore (NewInvokeBuilder S1_core ''set'')) = ''mychannel''"
  "EndorsingMspIDs ((defaultDoOptions (ccCore (NewInvokeBuilder S1_core ''set'')))\<lparr>TxWaiter := Some w\<rparr>) =
     [''Org1MSP'', ''Org2MSP'']"
  "Response (S1_responses ! 0) = Some \<lparr>Status = 200, Message = '''', Payload = [1]\<rparr>"
  by (simp_all add: S1_core_def S1_responses_def NewInvokeBuilder_def defaultDoOptions_def)

lemma demo_hub_idle:
  "\<not> ready (Err (stream_errors (demo_hub bs) ''mychannel''))"
  "stream_blocks (demo_hub bs) ''mychannel'' = [] @ bs"
  by (simp_all add: demo_hub_def ready_def make_chan_def)

lemma demo_blocks:
  "BlockMetadataIndex_TRANSACTIONS_FILTER < length (Metadata S4_block)"
  "1 < length (Data S4_block)"
  "\<forall>j<1. passes demo_protoutil (NewTxSubscription ''tx1'') (Data S4_block ! j)"
  "parseTx demo_protoutil (Data S4_block ! 1) = Parsed \<lparr>ChannelId = ''mychannel'', TxId = ''tx1''\<rparr>"
  "1 < length (Metadata S4_block ! BlockMetadataIndex_TRANSACTIONS_FILTER)"
  "uint (Metadata S4_block ! BlockMetadataIndex_TRANSACTIONS_FILTER ! 1) = 11"
  "BlockMetadataIndex_TRANSACTIONS_FILTER < length (Metadata garbled_block)"
  "0 < length (Data garbled_block)"
  "parseTx demo_protoutil (Data garbled_block ! 0) = Malformed (ErrNew ''error unmarshalling Envelope'')"
  "codeName demo_protoutil 11 = ''MVCC_READ_CONFLICT''"
  by (simp_all add: S4_block_def garbled_block_def demo_protoutil_def passes_def parseTx_def
      NewTxSubscription_def BlockMetadataIndex_TRANSACTIONS_FILTER_def codeName_def)

theorem Do_returns_waiter_outcome_witness:
  "Do (S1_env (Inr (txwaiter_Wait demo_protoutil (demo_hub [Some S1_block]))))
      (NewInvokeBuilder S1_core ''set'') [] =
     Returns ((Some \<lparr>Status = 200, Message = '''', Payload = [1]\<rparr>, ''tx1'', None),
              [CallTxWaiterSelf, CallEndorseOnMSPs [''Org1MSP'', ''Org2MSP''],
               CallBroadcast \<lparr>EnvPayload = [], EnvSignature = []\<rparr>, CallWait ''mychannel'' ''tx1'']) \<and>
   Do (S1_env (Inr (txwaiter_Wait demo_protoutil (demo_hub [Some S4_block]))))
      (NewInvokeBuilder S1_core ''set'') [] =
     Returns ((None, ''tx1'', Some (ErrNew ''TxId validation code failed: MVCC_READ_CONFLICT'')),
              [CallTxWaiterSelf, CallEndorseOnMSPs [''Org1MSP'', ''Org2MSP''],
               CallBroadcast \<lparr>EnvPayload = [], EnvSignature = []\<rparr>, CallWait ''mychannel'' ''tx1'']) \<and>
   Do (S1_env (Inr (txwaiter_Wait demo_protoutil (demo_hub [Some garbled_block]))))
      (NewInvokeBuilder S1_core ''set'') [] =
     Returns ((None, ''tx1'', Some (ErrNew ''error unmarshalling Envelope'')),
              [CallTxWaiterSelf, CallEndorseOnMSPs [''Org1MSP'', ''Org2MSP''],
               CallBroadcast \<lparr>EnvPayload = [], EnvSignature = []\<rparr>, CallWait ''mychannel'' ''tx1'']) \<and>
   Do (S1_env (Inr (txwaiter_Wait demo_protoutil (demo_hub [None]))))
      (NewInvokeBuilder S1_core ''set'') [] =
     Returns ((None, ''tx1'', Some (ErrNew ''code is closed'')),
              [CallTxWaiterSelf, CallEndorseOnMSPs [''Org1MSP'', ''Org2MSP''],
               CallBroadcast \<lparr>EnvPayload = [], EnvSignature = []\<rparr>, CallWait ''mychannel'' ''tx1'']) \<and>
   Do (S1_env (Inr (txwaiter_Wait demo_protoutil (demo_hub []))))
      (NewInvokeBuilder S1_core ''set'') [] =
     Returns ((None, ''tx1'', Some context_DeadlineExceeded),
              [CallTxWaiterSelf, CallEndorseOnMSPs [''Org1MSP'', ''Org2MSP''],
               CallBroadcast \<lparr>EnvPayload = [], EnvSignature = []\<rparr>, CallWait ''mychannel'' ''tx1''])"
proof -
  note inst = Do_returns_waiter_outcome
    [where P = demo_protoutil and pre = "[]", OF S1_run(1-9) refl S1_run(10), unfolded S1_values]
  note on_stream = inst [THEN conjunct2, rule_format]
  note on_block = on_stream [THEN conjunct2, THEN conjunct2, rule_format]
  have s1: "Do (S1_env (Inr (txwaiter_Wait demo_protoutil (demo_hub [Some S1_block]))))
      (NewInvokeBuilder S1_core ''set'') [] =
     Returns ((Some \<lparr>Status = 200, Message = '''', Payload = [1]\<rparr>, ''tx1'', None),
              [CallTxWaiterSelf, CallEndorseOnMSPs [''Org1MSP'', ''Org2MSP''],
               CallBroadcast \<lparr>EnvPayload = [], EnvSignature = []\<rparr>, CallWait ''mychannel'' ''tx1''])"
    using inst [of "txwaiter_Wait demo_protoutil (demo_hub [Some S1_block])" "demo_hub [Some S1_block]" "[Some S1_block]"]
      Wait_S1 by simp
  have s4: "Do (S1_env (Inr (txwaiter_Wait demo_protoutil (demo_hub [Some S4_block]))))
      (NewInvokeBuilder S1_core ''set'') [] =
     Returns ((None, ''tx1'', Some (ErrNew ''TxId validation code failed: MVCC_READ_CONFLICT'')),
              [CallTxWaiterSelf, CallEndorseOnMSPs [''Org1MSP'', ''Org2MSP''],
               CallBroadcast \<lparr>EnvPayload = [], EnvSignature = []\<rparr>, CallWait ''mychannel'' ''tx1''])"
    using on_block [THEN conjunct2, rule_format,
        of "txwaiter_Wait demo_protoutil (demo_hub [Some S4_block])" "demo_hub [Some S4_block]"
          "[Some S4_block]" S4_block "[]" 1 "\<lparr>ChannelId = ''mychannel'', TxId = ''tx1''\<rparr>"]
      demo_hub_idle [of "[Some S4_block]"] demo_blocks
    by (simp add: TxValidationCode_VALID_def)
  have gb: "Do (S1_env (Inr (txwaiter_Wait demo_protoutil (demo_hub [Some garbled_block]))))
      (NewInvokeBuilder S1_core ''set'') [] =
     Returns ((None, ''tx1'', Some (ErrNew ''error unmarshalling Envelope'')),
              [CallTxWaiterSelf, CallEndorseOnMSPs [''Org1MSP'', ''Org2MSP''],
               CallBroadcast \<lparr>EnvPayload = [], EnvSignature = []\<rparr>, CallWait ''mychannel'' ''tx1''])"
    using on_block [THEN conjunct1, rule_format,
        of "txwaiter_Wait demo_protoutil (demo_hub [Some garbled_block])" "demo_hub [Some garbled_block]"
          "[Some garbled_block]" garbled_block "[]" 0 "ErrNew ''error unmarshalling Envelope''"]
      demo_hub_idle [of "[Some garbled_block]"] demo_blocks
    by simp
  have cl: "Do (S1_env (Inr (txwaiter_Wait demo_protoutil (demo_hub [None]))))
      (NewInvokeBuilder S1_core ''set'') [] =
     Returns ((None, ''tx1'', Some (ErrNew ''code is closed'')),
              [CallTxWaiterSelf, CallEndorseOnMSPs [''Org1MSP'', ''Org2MSP''],
               CallBroadcast \<lparr>EnvPayload = [], EnvSignature = []\<rparr>, CallWait ''mychannel'' ''tx1''])"
    using on_stream [THEN conjunct2, THEN conjunct1, rule_format,
        of "txwaiter_Wait demo_protoutil (demo_hub [None])" "demo_hub [None]" "[None]" "[]"]
      demo_hub_idle [of "[None]"]
    by simp
  have dl: "Do (S1_env (Inr (txwaiter_Wait demo_protoutil (demo_hub []))))
      (NewInvokeBuilder S1_core ''set'') [] =
     Returns ((None, ''tx1'', Some context_DeadlineExceeded),
              [CallTxWaiterSelf, CallEndorseOnMSPs [''Org1MSP'', ''Org2MSP''],
               CallBroadcast \<lparr>EnvPayload = [], EnvSignature = []\<rparr>, CallWait ''mychannel'' ''tx1''])"
    using on_stream [THEN conjunct1, rule_format,
        of "txwaiter_Wait demo_protoutil (demo_hub [])" "demo_hub []" "[]"]
      demo_hub_idle [of "[]"]
    by simp
  from s1 s4 gb cl dl show ?thesis by simp
qed

text \<open>
  The claim as stated has \<open>Do\<close> return a non-nil error exactly when the awaited
  validation code is not VALID. On the run of S1 whose block holds an entry that is no
  envelope before the transaction \<open>tx1\<close>, which the block flags VALID, \<open>Do\<close> with the
  default waiter returns the txID and the parse error of that entry.
\<close>

theorem Do_error_with_valid_tx_counterexample:
  "parseTx demo_protoutil (Data garbled_block ! 1) = Parsed \<lparr>ChannelId = ''mychannel'', TxId = ''tx1''\<rparr> \<and>
   Flag (Metadata garbled_block ! BlockMetadataIndex_TRANSACTIONS_FILTER) 1 = Returns TxValidationCode_VALID \<and>
   Do (S1_env (Inr (txwaiter_Wait demo_protoutil (demo_hub [Some garbled_block]))))
      (NewInvokeBuilder S1_core ''set'') [] =
     Returns ((None, ''tx1'', Some (ErrNew ''error unmarshalling Envelope'')),
              [CallTxWaiterSelf, CallEndorseOnMSPs [''Org1MSP'', ''Org2MSP''],
               CallBroadcast \<lparr>EnvPayload = [], EnvSignature = []\<rparr>, CallWait ''mychannel'' ''tx1''])"
proof -
  have "Do (S1_env (Inr (txwaiter_Wait demo_protoutil (demo_hub [Some garbled_block]))))
      (NewInvokeBuilder S1_core ''set'') [] =
     Returns ((None, ''tx1'', Some (ErrNew ''error unmarshalling Envelope'')),
              [CallTxWaiterSelf, CallEndorseOnMSPs [''Org1MSP'', ''Org2MSP''],
               CallBroadcast \<lparr>EnvPayload = [], EnvSignature = []\<rparr>, CallWait ''mychannel'' ''tx1''])"
    by (simp add: Wait_garbled Do_def Do_submit_def S1_env_def S1_core_def S1_pool_def NewInvokeBuilder_def
        newErrArgMap_def errArgMap_Err_def defaultDoOptions_def CreateEnvelope_def)
  then show ?thesis
    by (simp add: parseTx_def demo_protoutil_def garbled_block_def Flag_def
        BlockMetadataIndex_TRANSACTIONS_FILTER_def TxValidationCode_VALID_def)
qed

text \<open>
  Claim C3. When the argument map is empty and the orderer is set, and the default
  tx-waiter constructor \<open>txwaiter.Self\<close> fails, \<open>Do\<close> returns a nil response, an empty
  txID and a nil error; the constructor's error is dropped.
\<close>

theorem Do_txwaiter_Self_failure:
  assumes "errArgMap_Err (mapOrder E) (invokeBuilder.err b) = None"
    and "orderer (ccCore b) = Some ord"
    and "txwaiter_Self E (defaultDoOptions (ccCore b)) = Inl e"
  shows "Do E b options = Returns ((None, '''', None), [CallTxWaiterSelf])"
  using assms by (simp add: Do_def)

theorem Do_txwaiter_Self_failure_witness:
  "errArgMap_Err (mapOrder (S1_env (Inl (ErrNew ''no peer for deliver'')))) (invokeBuilder.err (NewInvokeBuilder S1_core ''get'')) = None \<and>
   orderer (ccCore (NewInvokeBuilder S1_core ''get'')) \<noteq> None \<and>
   Do (S1_env (Inl (ErrNew ''no peer for deliver''))) (NewInvokeBuilder S1_core ''get'') []
     = Returns ((None, '''', None), [CallTxWaiterSelf])"
  using Do_txwaiter_Self_failure [of "S1_env (Inl (ErrNew ''no peer for deliver''))" "NewInvokeBuilder S1_core ''get''"
      "\<lambda>envelope. None" "ErrNew ''no peer for deliver''" "[]"]
  by (simp add: S1_env_def S1_core_def NewInvokeBuilder_def newErrArgMap_def errArgMap_Err_def)

text \<open>
  The rendering of an argument in the aggregate error, and the keys of the error map
  after \<open>ArgJSON\<close>.
\<close>

lemma String_makeTruncatableString:
  "TruncatableString_String (makeTruncatableString s 50) =
     (if length s \<le> 50 then s
      else take 50 s @ ''...'' @ ''('' @ fmt_d (int (length s) - 50) @ '')'')"
proof (cases "length s \<le> 50")
  case True
  then show ?thesis
    by (simp add: TruncatableString_String_def makeTruncatableString_def)
next
  case False
  then have n: "int (length (drop 50 s)) = int (length s) - 50" by simp
  from False have "int (length s) - 50 \<noteq> 0" by simp
  with False n show ?thesis
    by (simp add: TruncatableString_String_def makeTruncatableString_def)
qed

lemma ArgJSON_loop_keys:
  "fst ` set (container (fst (ArgJSON_loop json_Marshal Sprintf_v e argBytes ins))) =
     fst ` set (container e) \<union>
     {makeTruncatableString (Sprintf_v x) 50 | x. x \<in> set ins \<and> (\<exists>er. json_Marshal x = Inl er)}"
proof (induction ins arbitrary: e argBytes)
  case Nil
  then show ?case by simp
next
  case (Cons a ins)
  show ?case
  proof (cases "json_Marshal a")
    case (Inl er)
    then show ?thesis
      using Cons.IH [of "Add Sprintf_v e a er" argBytes]
      by (auto simp: Add_def dom_update)
  next
    case (Inr data)
    then show ?thesis
      using Cons.IH [of e "argBytes @ [data]"] by auto
  qed
qed

text \<open>
  When at least one argument of \<open>ArgJSON\<close> failed to marshal, \<open>Do\<close> fails at its first
  statement, before it calls any collaborator, and the text of the error is the lines of
  the error map in the order of the range; the keys of the map are those it had plus the
  capped rendering of every argument that failed.
\<close>

lemma Do_fails_on_argument_errors:
  fixes json_Marshal :: "'a \<Rightarrow> error + bytes" and Sprintf_v :: "'a \<Rightarrow> string"
  assumes "a \<in> set ins" and "json_Marshal a = Inl er"
  shows "Do E (ArgJSON json_Marshal Sprintf_v b ins) options =
           Returns ((None, '''',
                     Some (ErrNew (concat (map errLine
                       (mapOrder E (container (invokeBuilder.err (ArgJSON json_Marshal Sprintf_v b ins)))))))),
                    [])"
    and "fst ` set (container (invokeBuilder.err (ArgJSON json_Marshal Sprintf_v b ins))) =
           fst ` set (container (invokeBuilder.err b)) \<union>
           {makeTruncatableString (Sprintf_v x) 50 | x. x \<in> set ins \<and> (\<exists>er. json_Marshal x = Inl er)}"
proof -
  let ?b = "ArgJSON json_Marshal Sprintf_v b ins"
  let ?c = "container (invokeBuilder.err ?b)"
  have err: "invokeBuilder.err ?b = fst (ArgJSON_loop json_Marshal Sprintf_v (invokeBuilder.err b) [] ins)"
    by (simp add: ArgJSON_def ArgBytes_def split: prod.splits)
  show keys: "fst ` set ?c =
     fst ` set (container (invokeBuilder.err b)) \<union>
     {makeTruncatableString (Sprintf_v x) 50 | x. x \<in> set ins \<and> (\<exists>er. json_Marshal x = Inl er)}"
    unfolding err by (rule ArgJSON_loop_keys)
  from assms have "makeTruncatableString (Sprintf_v a) 50 \<in> fst ` set ?c"
    unfolding keys by blast
  then have "?c \<noteq> []" by auto
  then have "errArgMap_Err (mapOrder E) (invokeBuilder.err ?b) =
               Some (ErrNew (concat (map errLine (mapOrder E ?c))))"
    by (simp add: errArgMap_Err_def)
  then show "Do E ?b options = Returns ((None, '''', Some (ErrNew (concat (map errLine (mapOrder E ?c))))), [])"
    by (simp add: Do_def)
qed

lemma fmt_d_22: "fmt_d 22 = ''22''"
  by code_simp

lemma long_arg_length: "length long_arg = 72"
  by (simp add: long_arg_def)

lemma long_arg_take: "take 50 long_arg = long_arg_50"
  by (simp add: long_arg_def long_arg_50_def)

lemma long_arg_drop: "int (length (drop 50 long_arg)) = 22"
  by (simp add: long_arg_length)

lemma long_arg_not_ok: "long_arg \<noteq> ''ok''"
  by (simp add: long_arg_def)

text \<open>
  Claim C8. The claim has a rendering of more than 50 bytes appear as its first 50 bytes
  followed by the number of dropped bytes in parentheses, which is also what the comment
  on the field \<open>Value\<close> promises (the value is the first bytes of the string, within the
  limit). For an argument that fails to marshal and whose Go-syntax rendering has 72
  bytes, \<open>Do\<close> fails before any collaborator is called, and the aggregate error shows the
  first 50 bytes, then three dots, then \<open>(22)\<close>: \<open>makeTruncatableString\<close> has put the
  three dots into \<open>Value\<close>, which is 53 bytes long.
\<close>

theorem Do_BadArgs_long_rendering:
  "length long_arg = 72 \<and> take 50 long_arg = long_arg_50 \<and>
   Value (makeTruncatableString long_arg 50) = long_arg_50 @ ''...'' \<and>
   length (Value (makeTruncatableString long_arg 50)) = 53 \<and>
   TruncatedByteCount (makeTruncatableString long_arg 50) = 22 \<and>
   Do (S1_env (Inr (\<lambda>channel txID. Returns None)))
      (ArgJSON (\<lambda>x. if x = ''ok'' then Inr [1] else Inl (ErrNew ''json: unsupported type'')) (\<lambda>x. x)
         (NewInvokeBuilder S1_core ''set'') [''ok'', long_arg]) [] =
     Returns ((None, '''',
               Some (ErrNew (long_arg_50 @ ''...(22): json: unsupported type'' @ [CHR 0x0A]))), [])"
  by (simp add: Do_def S1_env_def errArgMap_Err_def ArgJSON_def ArgBytes_def Add_def NewInvokeBuilder_def
      newErrArgMap_def makeTruncatableString_def long_arg_length long_arg_take long_arg_drop errLine_def
      TruncatableString_String_def fmt_d_22 long_arg_not_ok long_arg_50_def)

subsection \<open>gRPC connection factory\<close>

text \<open>
  \<open>OptionsFromConfig\<close> leaves the package-level variables as they were, or, for a
  configuration without a retry block, it overwrites the timeout of
  \<open>DefaultGRPCRetryConfig\<close> with the timeout of the configuration.
\<close>

lemma OptionsFromConfig_globals:
  "fst (OptionsFromConfig S g c) = g \<or>
   (Retry (GRPC c) = None \<and> Duration_String S (Timeout c) \<noteq> '''' \<and>
    fst (OptionsFromConfig S g c) =
      g\<lparr>DefaultGRPCRetryConfig := (DefaultGRPCRetryConfig g)\<lparr>Timeout_retry := Timeout c\<rparr>\<rparr>)"
  by (auto simp: OptionsFromConfig_def chooseRetryConfig_def Let_def split: sum.splits option.splits)

text \<open>
  Claim C7. The claim has \<open>OptionsFromConfig\<close> leave \<open>DefaultGRPCRetryConfig\<close> as it was.
  For the peer endpoint with no retry block and a timeout of five seconds, called with
  the initial values (maximum 10, timeout ten seconds), the call returns its options and
  leaves \<open>DefaultGRPCRetryConfig\<close> with a timeout of five seconds.
\<close>

theorem OptionsFromConfig_overwrites_default_timeout:
  "Timeout_retry (DefaultGRPCRetryConfig initial_globals) = 10 * Second \<and>
   Retry (GRPC peer0) = None \<and>
   OptionsFromConfig demo_sys initial_globals peer0 =
     (initial_globals\<lparr>DefaultGRPCRetryConfig := \<lparr>Max_retry = 10, Timeout_retry = 5 * Second\<rparr>\<rparr>,
      Inr \<lparr>TLSCertHash = [],
           Dial = [WithStatsHandler, WithInsecure,
                   WithKeepaliveParams (60 * Second) (5 * Second) True,
                   WithUnaryInterceptor 10 (5 * Second),
                   WithDefaultCallOptions maxRecvMsgSize maxSendMsgSize, WithBlock]\<rparr>) \<and>
   Timeout_retry (DefaultGRPCRetryConfig (fst (OptionsFromConfig demo_sys initial_globals peer0))) \<noteq> 10 * Second"
  by (simp add: OptionsFromConfig_def OptionsFromConfig_tls_def chooseRetryConfig_def peer0_def demo_sys_def
      initial_globals_def Second_def)

text \<open>
  Claim C6, as the code has it. A connection that \<open>ConnectionFromConfigs\<close> returns was
  built from a non-empty list; its one list of dial options is the list
  \<open>OptionsFromConfig\<close> derives from the first configuration, followed by the round-robin
  balancer; and its resolver addresses are the hosts of all configurations, in order.
\<close>

theorem ConnectionFromConfigs_options_of_first:
  assumes "ConnectionFromConfigs S g conf = (g', Inr conn)"
  shows "conf \<noteq> [] \<and>
         (\<exists>opts. OptionsFromConfig S g (conf ! 0) = (g', Inr opts) \<and>
                 dialOptions conn = Dial opts @ [WithBalancerName roundrobin_Name]) \<and>
         addresses conn = map Host conf"
  using assms
  by (auto simp: ConnectionFromConfigs_def Let_def split: if_splits prod.splits sum.splits option.splits)

theorem ConnectionFromConfigs_options_of_first_witness:
  "ConnectionFromConfigs demo_sys initial_globals [orderer0, orderer1] =
     (initial_globals,
      Inr \<lparr>target = ''manual:///orderer0'',
           dialOptions = [WithStatsHandler, WithInsecure,
                          WithKeepaliveParams (60 * Second) (5 * Second) True,
                          WithUnaryInterceptor 3 (2 * Second),
                          WithDefaultCallOptions maxRecvMsgSize maxSendMsgSize, WithBlock,
                          WithBalancerName roundrobin_Name],
           addresses = [''orderer0:7050'', ''orderer1:7050'']\<rparr>) \<and>
   [orderer0, orderer1] \<noteq> [] \<and>
   (\<exists>opts. OptionsFromConfig demo_sys initial_globals ([orderer0, orderer1] ! 0) = (initial_globals, Inr opts) \<and>
      [WithStatsHandler, WithInsecure,
       WithKeepaliveParams (60 * Second) (5 * Second) True,
       WithUnaryInterceptor 3 (2 * Second),
       WithDefaultCallOptions maxRecvMsgSize maxSendMsgSize, WithBlock,
       WithBalancerName roundrobin_Name] = Dial opts @ [WithBalancerName roundrobin_Name])"
proof -
  have run: "ConnectionFromConfigs demo_sys initial_globals [orderer0, orderer1] =
     (initial_globals,
      Inr \<lparr>target = ''manual:///orderer0'',
           dialOptions = [WithStatsHandler, WithInsecure,
                          WithKeepaliveParams (60 * Second) (5 * Second) True,
                          WithUnaryInterceptor 3 (2 * Second),
                          WithDefaultCallOptions maxRecvMsgSize maxSendMsgSize, WithBlock,
                          WithBalancerName roundrobin_Name],
           addresses = [''orderer0:7050'', ''orderer1:7050'']\<rparr>)"
    by (simp add: ConnectionFromConfigs_def OptionsFromConfig_def OptionsFromConfig_tls_def
        chooseRetryConfig_def orderer0_def orderer1_def demo_sys_def initial_globals_def)
  from ConnectionFromConfigs_options_of_first [OF run] run show ?thesis by simp
qed

text \<open>
  The claim as stated has the options for endpoint \<open>i\<close> derived from the TLS settings of
  configuration \<open>i\<close>. For the two orderers, the second configuration enables TLS and its
  own options carry transport credentials, but the connection is dialled in plaintext,
  from the options of the first configuration.
\<close>

theorem ConnectionFromConfigs_per_endpoint_tls_counterexample:
  "Tls ([orderer0, orderer1] ! 1) =
     \<lparr>Enabled = True, SkipVerify = True, CACertPath = ''/tls/ca.pem'', CertPath = '''', KeyPath = ''''\<rparr> \<and>
   snd (OptionsFromConfig demo_sys initial_globals ([orderer0, orderer1] ! 1)) =
     Inr \<lparr>TLSCertHash = [],
          Dial = [WithStatsHandler,
                  WithTransportCredentials
                    \<lparr>InsecureSkipVerify = True, RootCAs = Some [[45, 45]], Certificates = []\<rparr>,
                  WithKeepaliveParams (60 * Second) (5 * Second) True,
                  WithUnaryInterceptor 3 (2 * Second),
                  WithDefaultCallOptions maxRecvMsgSize maxSendMsgSize, WithBlock]\<rparr> \<and>
   snd (ConnectionFromConfigs demo_sys initial_globals [orderer0, orderer1]) =
     Inr \<lparr>target = ''manual:///orderer0'',
          dialOptions = [WithStatsHandler, WithInsecure,
                         WithKeepaliveParams (60 * Second) (5 * Second) True,
                         WithUnaryInterceptor 3 (2 * Second),
                         WithDefaultCallOptions maxRecvMsgSize maxSendMsgSize, WithBlock,
                         WithBalancerName roundrobin_Name],
          addresses = [''orderer0:7050'', ''orderer1:7050'']\<rparr>"
  by (simp add: ConnectionFromConfigs_def OptionsFromConfig_def OptionsFromConfig_tls_def
      chooseRetryConfig_def orderer0_def orderer1_def demo_sys_def initial_globals_def)

end
